theory Spec2Isabelle
  imports Main
begin

section \<open>Python values, exceptions and dataset records\<close>

text \<open>
  The exceptions the code can meet, all of them subclasses of Python's \<open>Exception\<close>.
  \<open>LibraryError\<close> stands for whatever an external library call (the dataset hub, the
  tokenizer loader, \<open>shutil.rmtree\<close>) raises; its message is opaque.
\<close>

datatype error =
    KeyError string
  | TypeError string
  | IndexError
  | AttributeError string
  | OverflowError
  | RuntimeError string
  | ValueError string
  | FileNotFoundError string
  | LibraryError string

text \<open>
  A value stored under a key of a dataset row: a string, or a nested dictionary from
  language codes to strings (the \<open>'translation'\<close> layout). A row is a dictionary,
  kept as an association list and read with \<open>map_of\<close>.
\<close>

datatype pyval = Str string | Dict "(string \<times> string) list"

type_synonym item = "(string \<times> pyval) list"

text \<open>\<open>item[key]\<close> on a row: a missing key raises \<open>KeyError\<close>.\<close>

definition getkey :: "item \<Rightarrow> string \<Rightarrow> error + pyval" where
  "getkey item k = (case map_of item k of None \<Rightarrow> Inl (KeyError k) | Some v \<Rightarrow> Inr v)"

text \<open>\<open>v[key]\<close> on a value: a string cannot be indexed by a string.\<close>

fun subscript :: "pyval \<Rightarrow> string \<Rightarrow> error + pyval" where
  "subscript (Dict d) k = (case map_of d k of None \<Rightarrow> Inl (KeyError k) | Some s \<Rightarrow> Inr (Str s))"
| "subscript (Str s) k = Inl (TypeError ''string indices must be integers'')"

text \<open>\<open>xs[idx]\<close> on a Python list: a negative index counts from the end.\<close>

definition list_index :: "'a list \<Rightarrow> int \<Rightarrow> error + 'a" where
  "list_index xs idx =
     (let n = int (length xs); j = (if idx < 0 then n + idx else idx)
      in if 0 \<le> j \<and> j < n then Inr (xs ! nat j) else Inl IndexError)"

section \<open>The tokenizer object\<close>

text \<open>
  The tokenizer is an object of an external library. The model keeps what the code
  uses of it: the untruncated tokenisation of a text without special tokens as
  \<open>tokenize\<close>; \<open>list_output\<close>, which says whether \<open>encode\<close> answers a plain list of
  ids (as \<open>PreTrainedTokenizerFast\<close> does) or an object carrying them in \<open>.ids\<close>; the
  two vocabulary lookups, \<open>convert_ids_to_tokens\<close> on one id and
  \<open>convert_tokens_to_ids\<close> on one token, each answering \<open>None\<close> where the library
  does; and the three special tokens, which the library stores as strings.
\<close>

record tokenizer =
  tokenize :: "string \<Rightarrow> int list"
  list_output :: bool
  convert_ids_to_tokens :: "int \<Rightarrow> string option"
  convert_tokens_to_ids :: "string \<Rightarrow> int option"
  pad_token :: "string option"
  bos_token :: "string option"
  eos_token :: "string option"

text \<open>
  The library keeps no id of a special token: reading \<open>tokenizer.pad_token_id\<close> looks
  the stored token up in the vocabulary, and is \<open>None\<close> when no token is stored.
\<close>

definition pad_token_id :: "tokenizer \<Rightarrow> int option" where
  "pad_token_id tok =
     (case pad_token tok of None \<Rightarrow> None | Some t \<Rightarrow> convert_tokens_to_ids tok t)"

definition bos_token_id :: "tokenizer \<Rightarrow> int option" where
  "bos_token_id tok =
     (case bos_token tok of None \<Rightarrow> None | Some t \<Rightarrow> convert_tokens_to_ids tok t)"

definition eos_token_id :: "tokenizer \<Rightarrow> int option" where
  "eos_token_id tok =
     (case eos_token tok of None \<Rightarrow> None | Some t \<Rightarrow> convert_tokens_to_ids tok t)"

text \<open>
  The assignment \<open>tokenizer.pad_token_id = i\<close> stores the token the vocabulary has at
  \<open>i\<close>; where it has none, the stored token, and with it the id, stays \<open>None\<close>.
\<close>

definition set_pad_token_id :: "tokenizer \<Rightarrow> int \<Rightarrow> tokenizer" where
  "set_pad_token_id tok i = tok\<lparr>pad_token := convert_ids_to_tokens tok i\<rparr>"

definition set_bos_token_id :: "tokenizer \<Rightarrow> int \<Rightarrow> tokenizer" where
  "set_bos_token_id tok i = tok\<lparr>bos_token := convert_ids_to_tokens tok i\<rparr>"

definition set_eos_token_id :: "tokenizer \<Rightarrow> int \<Rightarrow> tokenizer" where
  "set_eos_token_id tok i = tok\<lparr>eos_token := convert_ids_to_tokens tok i\<rparr>"

text \<open>
  \<open>tokenizer.convert_ids_to_tokens([i])[0]\<close>: on a list the library first turns every
  element into an int, which \<open>None\<close> is not.
\<close>

definition first_token_of :: "tokenizer \<Rightarrow> int option \<Rightarrow> error + string option" where
  "first_token_of tok i =
     (case i of
        None \<Rightarrow> Inl (TypeError ''int() argument must be a number, not NoneType'')
      | Some n \<Rightarrow> Inr (convert_ids_to_tokens tok n))"

datatype encoding = IdList "int list" | Encoding "int list"

text \<open>
  \<open>tokenizer.encode(text, add_special_tokens=False, max_length=n, truncation=True)\<close>:
  the library keeps at most \<open>n\<close> ids, cutting on the right; it refuses a text that is
  not a string and a negative \<open>n\<close>.
\<close>

definition encode :: "tokenizer \<Rightarrow> pyval \<Rightarrow> int \<Rightarrow> error + encoding" where
  "encode tok text max_len =
     (case text of
        Dict _ \<Rightarrow> Inl (TypeError ''text input must be of type str'')
      | Str s \<Rightarrow>
          if max_len < 0 then Inl OverflowError
          else let ids = take (nat max_len) (tokenize tok s)
               in Inr (if list_output tok then IdList ids else Encoding ids))"

section \<open>TranslationDataset\<close>

record 'a src_tgt =
  src :: 'a
  tgt :: 'a

type_synonym example = "int list src_tgt"

record TranslationDataset =
  data :: "item list"
  tokenizer_of :: tokenizer
  max_length :: int
  lang_keys :: "string \<times> string"

definition len_dataset :: "TranslationDataset \<Rightarrow> nat" where
  "len_dataset self = length (data self)"

text \<open>Lines 23--28: the two texts, from the nested or from the flat layout.\<close>

definition texts_of :: "string \<times> string \<Rightarrow> item \<Rightarrow> error + (pyval \<times> pyval)" where
  "texts_of keys item =
     (if map_of item ''translation'' \<noteq> None then
        (case getkey item ''translation'' of
           Inl e \<Rightarrow> Inl e
         | Inr tr \<Rightarrow>
             (case subscript tr (fst keys) of
                Inl e \<Rightarrow> Inl e
              | Inr src_text \<Rightarrow>
                  (case subscript tr (snd keys) of
                     Inl e \<Rightarrow> Inl e
                   | Inr tgt_text \<Rightarrow> Inr (src_text, tgt_text))))
      else
        (case getkey item (fst keys) of
           Inl e \<Rightarrow> Inl e
         | Inr src_text \<Rightarrow>
             (case getkey item (snd keys) of
                Inl e \<Rightarrow> Inl e
              | Inr tgt_text \<Rightarrow> Inr (src_text, tgt_text))))"

text \<open>
  Lines 43--48: the \<open>isinstance\<close> test looks at the source encoding only. A target
  encoding of the other kind fails later: a list has no \<open>.ids\<close>, and a list cannot be
  concatenated with an encoding object.
\<close>

fun token_ids :: "encoding \<Rightarrow> encoding \<Rightarrow> error + (int list \<times> int list)" where
  "token_ids (IdList s) (IdList t) = Inr (s, t)"
| "token_ids (IdList s) (Encoding t) = Inl (TypeError ''can only concatenate list to list'')"
| "token_ids (Encoding s) (Encoding t) = Inr (s, t)"
| "token_ids (Encoding s) (IdList t) = Inl (AttributeError ''ids'')"

definition bos_id_of :: "tokenizer \<Rightarrow> int" where
  "bos_id_of tok = (case bos_token_id tok of Some b \<Rightarrow> b | None \<Rightarrow> 1)"

definition eos_id_of :: "tokenizer \<Rightarrow> int" where
  "eos_id_of tok = (case eos_token_id tok of Some e \<Rightarrow> e | None \<Rightarrow> 2)"

text \<open>
  Lines 30--59: the transform of one row. The two tensors are kept as the lists of ids
  they are built from; ids are vocabulary indices, and the conversion to 64-bit
  integers is not part of the model.
\<close>

definition transform :: "TranslationDataset \<Rightarrow> item \<Rightarrow> error + example" where
  "transform self item =
     (case texts_of (lang_keys self) item of
        Inl e \<Rightarrow> Inl e
      | Inr (src_text, tgt_text) \<Rightarrow>
          (case encode (tokenizer_of self) src_text (max_length self - 2) of
             Inl e \<Rightarrow> Inl e
           | Inr src_encoding \<Rightarrow>
               (case encode (tokenizer_of self) tgt_text (max_length self - 2) of
                  Inl e \<Rightarrow> Inl e
                | Inr tgt_encoding \<Rightarrow>
                    (case token_ids src_encoding tgt_encoding of
                       Inl e \<Rightarrow> Inl e
                     | Inr (src_token_ids, tgt_token_ids) \<Rightarrow>
                         (let bos_id = bos_id_of (tokenizer_of self);
                              eos_id = eos_id_of (tokenizer_of self)
                          in Inr \<lparr>src = [bos_id] @ src_token_ids @ [eos_id],
                                  tgt = [bos_id] @ tgt_token_ids @ [eos_id]\<rparr>)))))"

definition getitem :: "TranslationDataset \<Rightarrow> int \<Rightarrow> error + example" where
  "getitem self idx =
     (case list_index (data self) idx of
        Inl e \<Rightarrow> Inl e
      | Inr item \<Rightarrow> transform self item)"

text \<open>
  A corpus record in the sense of the data model: the two language texts are present as
  strings, under \<open>'translation'\<close> when the row has that key, at top level otherwise.
\<close>

definition corpus_record :: "string \<times> string \<Rightarrow> item \<Rightarrow> bool" where
  "corpus_record keys item =
     (case map_of item ''translation'' of
        Some (Dict d) \<Rightarrow> map_of d (fst keys) \<noteq> None \<and> map_of d (snd keys) \<noteq> None
      | Some (Str _) \<Rightarrow> False
      | None \<Rightarrow>
          (case (map_of item (fst keys), map_of item (snd keys)) of
             (Some (Str _), Some (Str _)) \<Rightarrow> True
           | _ \<Rightarrow> False))"

definition framed :: "int \<Rightarrow> int \<Rightarrow> int \<Rightarrow> int list \<Rightarrow> bool" where
  "framed bos eos L xs \<longleftrightarrow>
     xs \<noteq> [] \<and> hd xs = bos \<and> last xs = eos \<and> 2 \<le> length xs \<and> int (length xs) \<le> L"

section \<open>collate_fn\<close>

text \<open>
  The pad value reaches the library as a C double and is written into a tensor of
  64-bit integers. \<open>nearest_double n\<close> is the double nearest to the integer \<open>n\<close>, ties
  to the even significand of 53 bits: below \<open>2 ^ 53\<close> in magnitude it is \<open>n\<close> itself.
  An integer too large for any double is refused when the argument is read, and a
  double outside the 64-bit range when it is written.
\<close>

function double_shift :: "nat \<Rightarrow> nat" where
  "double_shift m = (if m < 2 ^ 53 then 0 else Suc (double_shift (m div 2)))"
  by pat_completeness auto
termination
  by (relation "measure (\<lambda>m. m)") auto

declare double_shift.simps [simp del]

definition nearest_double :: "int \<Rightarrow> int" where
  "nearest_double n =
     (let m = nat \<bar>n\<bar>; k = double_shift m; q = m div 2 ^ k; r = m mod 2 ^ k;
          q' = (if 2 * r > 2 ^ k \<or> (2 * r = 2 ^ k \<and> odd q) then q + 1 else q)
      in sgn n * int (q' * 2 ^ k))"

definition as_double :: "int \<Rightarrow> error + int" where
  "as_double n =
     (if 2 ^ 1024 \<le> \<bar>nearest_double n\<bar> then Inl OverflowError
      else Inr (nearest_double n))"

definition as_int64 :: "int \<Rightarrow> error + int" where
  "as_int64 v =
     (if v < - (2 ^ 63) \<or> 2 ^ 63 \<le> v
      then Inl (RuntimeError ''value cannot be converted to type int64_t without overflow'')
      else Inr v)"

text \<open>
  \<open>torch.nn.utils.rnn.pad_sequence(sequences, batch_first=True, padding_value=p)\<close> on
  one-dimensional tensors of 64-bit integers: a tensor with one row per sequence, each
  row the sequence followed by the converted \<open>p\<close> up to the longest length. An empty
  list of sequences is refused. A two-dimensional tensor is the list of its rows.
\<close>

definition pad_sequence :: "int list list \<Rightarrow> int \<Rightarrow> error + int list list" where
  "pad_sequence sequences padding_value =
     (case as_double padding_value of
        Inl e \<Rightarrow> Inl e
      | Inr value \<Rightarrow>
          if sequences = [] then Inl (RuntimeError ''received an empty list of sequences'')
          else (case as_int64 value of
                  Inl e \<Rightarrow> Inl e
                | Inr cell \<Rightarrow>
                    (let max_len = foldr max (map length sequences) 0
                     in Inr (map (\<lambda>s. s @ replicate (max_len - length s) cell) sequences))))"

definition collate_fn :: "example list \<Rightarrow> int \<Rightarrow> error + int list list src_tgt" where
  "collate_fn batch pad_token_id' =
     (let src_batch = map src batch;
          tgt_batch = map tgt batch
      in case pad_sequence src_batch pad_token_id' of
           Inl e \<Rightarrow> Inl e
         | Inr src_padded \<Rightarrow>
             (case pad_sequence tgt_batch pad_token_id' of
                Inl e \<Rightarrow> Inl e
              | Inr tgt_padded \<Rightarrow> Inr \<lparr>src = src_padded, tgt = tgt_padded\<rparr>))"

text \<open>The longest length in a non-empty list of sequences.\<close>

definition max_len_in :: "int list list \<Rightarrow> nat" where
  "max_len_in sequences = Max (length ` set sequences)"

section \<open>The leakage check\<close>

text \<open>What the code prints, one constructor for each \<open>print\<close> of the source.\<close>

datatype log_event =
    Checking_cache
  | Found_cache string
  | Deleting_cache
  | Cache_deleted
  | Error_deleting_cache error
  | Manual_inspect_hint
  | Cache_not_found
  | Loading_tokenizer string
  | Loading_dataset string
  | Leakage_check_start
  | Banner_rule
  | Fatal_leakage_confirmed
  | Found_leaked nat
  | Example_leaked string
  | Proceeding_by_filtering
  | Filtered int
  | Check_passed_after_filtering
  | Check_passed
  | Using_subset int
  | Using_samples nat nat
  | Fatal error

text \<open>
  \<open>sample['de']\<close> where the value becomes a set element or is tested for membership in
  a set: the key must be present and the value hashable, which a dictionary is not.
\<close>

definition de_of :: "item \<Rightarrow> error + string" where
  "de_of sample =
     (case getkey sample ''de'' of
        Inl e \<Rightarrow> Inl e
      | Inr (Str s) \<Rightarrow> Inr s
      | Inr (Dict _) \<Rightarrow> Inl (TypeError ''unhashable type: dict''))"

text \<open>Lines 139 and 152: \<open>{s['de'] for s in samples}\<close>, the rows visited in order.\<close>

fun de_sentences :: "item list \<Rightarrow> error + string list" where
  "de_sentences [] = Inr []"
| "de_sentences (sample # rest) =
     (case de_of sample of
        Inl e \<Rightarrow> Inl e
      | Inr d \<Rightarrow> (case de_sentences rest of Inl e \<Rightarrow> Inl e | Inr ds \<Rightarrow> Inr (d # ds)))"

text \<open>Line 141: \<open>[s for s in val_data if s['de'] in train_de_sentences]\<close>.\<close>

fun leaked_samples_of :: "string set \<Rightarrow> item list \<Rightarrow> error + item list" where
  "leaked_samples_of train_de_sentences [] = Inr []"
| "leaked_samples_of train_de_sentences (s # rest) =
     (case de_of s of
        Inl e \<Rightarrow> Inl e
      | Inr d \<Rightarrow>
          (case leaked_samples_of train_de_sentences rest of
             Inl e \<Rightarrow> Inl e
           | Inr others \<Rightarrow> Inr (if d \<in> train_de_sentences then s # others else others)))"

text \<open>Line 154: \<open>val_data.filter(lambda example: example['de'] not in leaked)\<close>.\<close>

fun filter_not_in :: "string set \<Rightarrow> item list \<Rightarrow> error + item list" where
  "filter_not_in leaked [] = Inr []"
| "filter_not_in leaked (example # rest) =
     (case de_of example of
        Inl e \<Rightarrow> Inl e
      | Inr d \<Rightarrow>
          (case filter_not_in leaked rest of
             Inl e \<Rightarrow> Inl e
           | Inr kept \<Rightarrow> Inr (if d \<notin> leaked then example # kept else kept)))"

text \<open>
  Lines 138--160, the body of the \<open>rank == 0\<close> block: what is printed, and the
  validation rows afterwards or the exception that ended the block.
\<close>

definition leakage_filter :: "item list \<Rightarrow> item list \<Rightarrow> log_event list \<times> (error + item list)" where
  "leakage_filter train_data val_data =
     (case de_sentences train_data of
        Inl e \<Rightarrow> ([Leakage_check_start], Inl e)
      | Inr train_de \<Rightarrow>
          (case leaked_samples_of (set train_de) val_data of
             Inl e \<Rightarrow> ([Leakage_check_start], Inl e)
           | Inr leaked_samples \<Rightarrow>
               if length leaked_samples > 0 then
                 (let banner = [Leakage_check_start, Banner_rule, Fatal_leakage_confirmed,
                                Banner_rule, Found_leaked (length leaked_samples)]
                  in case list_index leaked_samples 0 of
                       Inl e \<Rightarrow> (banner, Inl e)
                     | Inr first \<Rightarrow>
                         (case de_of first of
                            Inl e \<Rightarrow> (banner, Inl e)
                          | Inr first_de \<Rightarrow>
                              (let said = banner @ [Example_leaked first_de, Proceeding_by_filtering]
                               in case de_sentences leaked_samples of
                                    Inl e \<Rightarrow> (said, Inl e)
                                  | Inr leaked_de \<Rightarrow>
                                      (let original_val_size = int (length val_data)
                                       in case filter_not_in (set leaked_de) val_data of
                                            Inl e \<Rightarrow> (said, Inl e)
                                          | Inr val_data' \<Rightarrow>
                                              (said @ [Filtered (original_val_size - int (length val_data')),
                                                       Check_passed_after_filtering],
                                               Inr val_data')))))
               else ([Leakage_check_start, Check_passed], Inr val_data)))"

text \<open>A row is leaked when its \<open>'de'\<close> string is one of the training \<open>'de'\<close> strings.\<close>

definition is_leaked :: "string set \<Rightarrow> item \<Rightarrow> bool" where
  "is_leaked train_de_sentences s =
     (case de_of s of Inr d \<Rightarrow> d \<in> train_de_sentences | Inl _ \<Rightarrow> False)"

section \<open>create_dataloaders\<close>

record model_config =
  max_seq_len :: int

text \<open>\<open>num_workers\<close> is read with \<open>getattr(training_config, 'num_workers', 2)\<close>.\<close>

record training_config =
  batch_size :: int
  num_workers :: "int option"

text \<open>
  The arguments of \<open>create_dataloaders\<close>. \<open>val_split_fraction\<close>, a float the body never
  reads, is left out.
\<close>

record args =
  model_cfg :: model_config
  training_cfg :: training_config
  tokenizer_path :: string
  use_ddp :: bool
  rank :: int
  world_size :: int
  dataset_name :: string
  dataset_config :: "string option"
  subset_size :: "int option"
  seed :: int

text \<open>
  What the function asks of its surroundings, each field the answer it gets:
  the \<open>HF_HOME\<close> variable, the expansion of \<open>~\<close>, the directory of the module file,
  \<open>os.path.exists\<close> (at the moment the code asks), \<open>shutil.rmtree\<close> (\<open>None\<close> when it
  succeeds), the tokenizer constructor, \<open>load_dataset(name, name=None, split=...)\<close>, and
  the seeded \<open>Dataset.shuffle\<close>.
\<close>

record world =
  environ_HF_HOME :: "string option"
  user_home :: string
  module_dir :: string
  path_exists :: "string \<Rightarrow> bool"
  rmtree :: "string \<Rightarrow> error option"
  PreTrainedTokenizerFast :: "string \<Rightarrow> error + tokenizer"
  load_dataset :: "string \<Rightarrow> string \<Rightarrow> error + item list"
  shuffle :: "int \<Rightarrow> item list \<Rightarrow> error + item list"

text \<open>\<open>os.path.join\<close> on POSIX paths.\<close>

definition path_join :: "string \<Rightarrow> string \<Rightarrow> string" where
  "path_join a b =
     (if b \<noteq> [] \<and> hd b = CHR ''/'' then b
      else if a = [] \<or> last a = CHR ''/'' then a @ b
      else a @ ''/'' @ b)"

text \<open>Lines 85--102, the body of the first \<open>rank == 0\<close> block.\<close>

definition clear_cache :: "world \<Rightarrow> log_event list" where
  "clear_cache w =
     (let hf_cache_home = (case environ_HF_HOME w of
                             Some h \<Rightarrow> h
                           | None \<Rightarrow> user_home w @ ''/.cache/huggingface'');
          datasets_cache_path = path_join hf_cache_home ''datasets'';
          multi30k_cache_path = path_join datasets_cache_path ''bentrevett___multi30k''
      in [Checking_cache] @
         (if path_exists w multi30k_cache_path then
            [Found_cache multi30k_cache_path, Deleting_cache] @
            (case rmtree w multi30k_cache_path of
               None \<Rightarrow> [Cache_deleted]
             | Some e \<Rightarrow> [Error_deleting_cache e, Manual_inspect_hint])
          else [Cache_not_found]))"

text \<open>Lines 113--119: a fallback id for every special token that has no id.\<close>

definition assign_fallback_ids :: "tokenizer \<Rightarrow> tokenizer" where
  "assign_fallback_ids tokenizer0 =
     (let t1 = (if pad_token_id tokenizer0 = None then set_pad_token_id tokenizer0 3
                else tokenizer0);
          t2 = (if bos_token_id t1 = None then set_bos_token_id t1 1 else t1);
          t3 = (if eos_token_id t2 = None then set_eos_token_id t2 2 else t2)
      in t3)"

text \<open>
  Lines 113--127: the fallback ids, then the token strings that are still missing.
  Lines 122--127 run on a token that is \<open>None\<close>, whose id is then \<open>None\<close> as well.
\<close>

definition ensure_special_tokens :: "tokenizer \<Rightarrow> error + tokenizer" where
  "ensure_special_tokens tokenizer0 =
     (let t3 = assign_fallback_ids tokenizer0
      in case (if pad_token t3 = None
               then (case first_token_of t3 (pad_token_id t3) of
                       Inl e \<Rightarrow> Inl e
                     | Inr v \<Rightarrow> Inr (t3\<lparr>pad_token := v\<rparr>))
               else Inr t3) of
           Inl e \<Rightarrow> Inl e
         | Inr t4 \<Rightarrow>
        (case (if bos_token t4 = None
               then (case first_token_of t4 (bos_token_id t4) of
                       Inl e \<Rightarrow> Inl e
                     | Inr v \<Rightarrow> Inr (t4\<lparr>bos_token := v\<rparr>))
               else Inr t4) of
           Inl e \<Rightarrow> Inl e
         | Inr t5 \<Rightarrow>
             (if eos_token t5 = None
              then (case first_token_of t5 (eos_token_id t5) of
                      Inl e \<Rightarrow> Inl e
                    | Inr v \<Rightarrow> Inr (t5\<lparr>eos_token := v\<rparr>))
              else Inr t5)))"

definition rank0 :: "int \<Rightarrow> log_event list \<Rightarrow> log_event list" where
  "rank0 r events = (if r = 0 then events else [])"

text \<open>
  Lines 132--174, the body of the \<open>try\<close>: what is printed, and the two datasets or the
  exception raised. \<open>select(range(k))\<close> keeps the first \<open>k\<close> rows.
\<close>

definition build_datasets ::
  "world \<Rightarrow> args \<Rightarrow> tokenizer \<Rightarrow>
   log_event list \<times> (error + TranslationDataset \<times> TranslationDataset)" where
  "build_datasets w a tok =
     (let said1 = rank0 (rank a) [Loading_dataset (dataset_name a)]
      in case load_dataset w (dataset_name a) ''train'' of
           Inl e \<Rightarrow> (said1, Inl e)
         | Inr train_data \<Rightarrow>
        (case load_dataset w (dataset_name a) ''validation'' of
           Inl e \<Rightarrow> (said1, Inl e)
         | Inr val_data \<Rightarrow>
        (case (if rank a = 0 then leakage_filter train_data val_data
               else ([], Inr val_data)) of
           (said2, Inl e) \<Rightarrow> (said1 @ said2, Inl e)
         | (said2, Inr val_data') \<Rightarrow>
        (case (case subset_size a of
                 None \<Rightarrow> ([], Inr train_data)
               | Some k \<Rightarrow>
                   if k < int (length train_data) then
                     (rank0 (rank a) [Using_subset k],
                      case shuffle w (seed a + 1) train_data of
                        Inl e \<Rightarrow> Inl e
                      | Inr shuffled \<Rightarrow> Inr (take (nat k) shuffled))
                   else ([], Inr train_data)) of
           (said3, Inl e) \<Rightarrow> (said1 @ said2 @ said3, Inl e)
         | (said3, Inr train_data') \<Rightarrow>
             (said1 @ said2 @ said3 @
                rank0 (rank a) [Using_samples (length train_data') (length val_data')],
              Inr (\<lparr>data = train_data', tokenizer_of = tok,
                     max_length = max_seq_len (model_cfg a), lang_keys = (''en'', ''de'')\<rparr>,
                   \<lparr>data = val_data', tokenizer_of = tok,
                     max_length = max_seq_len (model_cfg a), lang_keys = (''en'', ''de'')\<rparr>))))))"

record DistributedSampler =
  num_replicas :: int
  sampler_rank :: int
  sampler_shuffle :: bool

text \<open>
  \<open>DistributedSampler(dataset, num_replicas=n, rank=r, shuffle=b)\<close>: with both numbers
  given, the library checks the rank against the number of replicas.
\<close>

definition new_DistributedSampler :: "int \<Rightarrow> int \<Rightarrow> bool \<Rightarrow> error + DistributedSampler" where
  "new_DistributedSampler n r b =
     (if r \<ge> n \<or> r < 0 then Inl (ValueError ''Invalid rank'')
      else Inr \<lparr>num_replicas = n, sampler_rank = r, sampler_shuffle = b\<rparr>)"

text \<open>
  A \<open>DataLoader\<close> as the arguments it was built from; \<open>collate_pad_id\<close> is the pad id
  bound by \<open>partial(collate_fn, pad_token_id=pad_id)\<close>.
\<close>

record DataLoader =
  dl_dataset :: TranslationDataset
  dl_batch_size :: int
  collate_pad_id :: "int option"
  dl_sampler :: "DistributedSampler option"
  dl_shuffle :: bool
  dl_num_workers :: int
  dl_pin_memory :: bool

text \<open>
  The checks of the \<open>DataLoader\<close> constructor on the arguments the code passes, in the
  library's order: the number of workers, a sampler together with \<open>shuffle\<close>, the
  random sampler it builds for \<open>shuffle\<close> (which refuses an empty dataset), and the
  batch sampler (which refuses a batch size below 1).
\<close>

definition new_DataLoader ::
  "TranslationDataset \<Rightarrow> int \<Rightarrow> int option \<Rightarrow> DistributedSampler option \<Rightarrow> bool \<Rightarrow> int \<Rightarrow>
   error + DataLoader" where
  "new_DataLoader ds bs pad smp shf workers =
     (if workers < 0 then Inl (ValueError ''num_workers option should be non-negative'')
      else if smp \<noteq> None \<and> shf
        then Inl (ValueError ''sampler option is mutually exclusive with shuffle'')
      else if smp = None \<and> shf \<and> len_dataset ds = 0
        then Inl (ValueError ''num_samples should be a positive integer value'')
      else if bs \<le> 0 then Inl (ValueError ''batch_size should be a positive integer value'')
      else Inr \<lparr>dl_dataset = ds, dl_batch_size = bs, collate_pad_id = pad, dl_sampler = smp,
                dl_shuffle = shf, dl_num_workers = workers, dl_pin_memory = True\<rparr>)"

text \<open>How a call ends: it returns, an exception leaves it, or \<open>sys.exit\<close> ends the process.\<close>

datatype 'a outcome = Returned 'a | Raised error | Exited int

definition tokenizer_file :: "world \<Rightarrow> string" where
  "tokenizer_file w = path_join (path_join (module_dir w) ''..'') ''en-de-tokenizer.json''"

text \<open>Lines 184--191: the two samplers and the shuffle flag of the training loader.\<close>

definition samplers ::
  "args \<Rightarrow> error + (DistributedSampler option \<times> DistributedSampler option \<times> bool)" where
  "samplers a =
     (if use_ddp a then
        (case new_DistributedSampler (world_size a) (rank a) True of
           Inl e \<Rightarrow> Inl e
         | Inr train_sampler \<Rightarrow>
             (case new_DistributedSampler (world_size a) (rank a) False of
                Inl e \<Rightarrow> Inl e
              | Inr val_sampler \<Rightarrow> Inr (Some train_sampler, Some val_sampler, False)))
      else Inr (None, None, True))"

text \<open>Lines 193--215: the two loaders.\<close>

definition loaders ::
  "args \<Rightarrow> tokenizer \<Rightarrow> TranslationDataset \<Rightarrow> TranslationDataset \<Rightarrow>
   error + (DataLoader \<times> DataLoader \<times> tokenizer)" where
  "loaders a tok train_dataset val_dataset =
     (case samplers a of
        Inl e \<Rightarrow> Inl e
      | Inr (train_sampler, val_sampler, train_shuffle) \<Rightarrow>
          (let workers = (case num_workers (training_cfg a) of Some n \<Rightarrow> n | None \<Rightarrow> 2)
           in case new_DataLoader train_dataset (batch_size (training_cfg a))
                     (pad_token_id tok) train_sampler train_shuffle workers of
                Inl e \<Rightarrow> Inl e
              | Inr train_loader \<Rightarrow>
                  (case new_DataLoader val_dataset (batch_size (training_cfg a))
                          (pad_token_id tok) val_sampler False workers of
                     Inl e \<Rightarrow> Inl e
                   | Inr val_loader \<Rightarrow> Inr (train_loader, val_loader, tok))))"

definition create_dataloaders ::
  "world \<Rightarrow> args \<Rightarrow> log_event list \<times> (DataLoader \<times> DataLoader \<times> tokenizer) outcome" where
  "create_dataloaders w a =
     (let said0 = rank0 (rank a) (clear_cache w);
          tokenizer_path' = tokenizer_file w
      in if \<not> path_exists w tokenizer_path' then
           (said0, Raised (FileNotFoundError tokenizer_path'))
         else
           (let said1 = said0 @ rank0 (rank a) [Loading_tokenizer tokenizer_path']
            in case PreTrainedTokenizerFast w tokenizer_path' of
                 Inl e \<Rightarrow> (said1, Raised e)
               | Inr tokenizer0 \<Rightarrow>
                   (case ensure_special_tokens tokenizer0 of
                      Inl e \<Rightarrow> (said1, Raised e)
                    | Inr tok \<Rightarrow>
                        (case build_datasets w a tok of
                           (said2, Inl e) \<Rightarrow>
                             (said1 @ said2 @ rank0 (rank a) [Fatal e], Exited 1)
                         | (said2, Inr (train_dataset, val_dataset)) \<Rightarrow>
                             (case loaders a tok train_dataset val_dataset of
                                Inl e \<Rightarrow> (said1 @ said2, Raised e)
                              | Inr result \<Rightarrow> (said1 @ said2, Returned result))))))"

section \<open>The encoder stack\<close>

text \<open>
  Tensors are values of a type \<open>'t\<close> that the model leaves open, and masks (the
  argument \<open>mask\<close> of the source, written \<open>msk\<close> here) of a type \<open>'m\<close>. An \<open>EncoderLayer\<close> holds its submodules as the functions they compute in one forward
  pass; \<open>dropout k\<close> is the \<open>k\<close>-th application of \<open>self.dropout\<close> in that pass, since
  two applications need not drop the same positions. Tensor addition is the parameter
  \<open>add\<close>.
\<close>

record ('t, 'm) EncoderLayer =
  self_attention :: "'t \<Rightarrow> 't \<Rightarrow> 't \<Rightarrow> 'm option \<Rightarrow> 't"
  feed_forward :: "'t \<Rightarrow> 't"
  norm1 :: "'t \<Rightarrow> 't"
  norm2 :: "'t \<Rightarrow> 't"
  dropout :: "nat \<Rightarrow> 't \<Rightarrow> 't"

definition EncoderLayer_forward ::
  "('t \<Rightarrow> 't \<Rightarrow> 't) \<Rightarrow> ('t, 'm) EncoderLayer \<Rightarrow> 't \<Rightarrow> 'm option \<Rightarrow> 't" where
  "EncoderLayer_forward add self x msk =
     (let attn_output = self_attention self x x x msk;
          x1 = norm1 self (add x (dropout self 0 attn_output));
          ff_output = feed_forward self x1;
          x2 = norm2 self (add x1 (dropout self 1 ff_output))
      in x2)"

text \<open>
  \<open>Encoder.__init__\<close>: \<open>new_layer i\<close> is the \<open>i\<close>-th
  \<open>EncoderLayer(d_model, n_heads, d_ff, dropout)\<close> that the list comprehension builds;
  \<open>range\<close> of a negative number is empty.
\<close>

definition Encoder_init :: "int \<Rightarrow> (nat \<Rightarrow> ('t, 'm) EncoderLayer) \<Rightarrow> ('t, 'm) EncoderLayer list" where
  "Encoder_init n_layers new_layer = map new_layer [0..<nat n_layers]"

definition Encoder_forward ::
  "('t \<Rightarrow> 't \<Rightarrow> 't) \<Rightarrow> ('t, 'm) EncoderLayer list \<Rightarrow> 't \<Rightarrow> 'm option \<Rightarrow> 't" where
  "Encoder_forward add layers x msk =
     foldl (\<lambda>x layer. EncoderLayer_forward add layer x msk) x layers"

text \<open>
  The contract of the submodules of one layer on tensors of shape \<open>s\<close>: attention of a
  tensor with itself, the feed-forward block, both normalisations, dropout and the
  residual addition answer a tensor of shape \<open>s\<close>.
\<close>

definition keeps_shape ::
  "('t \<Rightarrow> nat list) \<Rightarrow> ('t \<Rightarrow> 't \<Rightarrow> 't) \<Rightarrow> nat list \<Rightarrow> ('t, 'm) EncoderLayer \<Rightarrow> bool" where
  "keeps_shape shape add s l \<longleftrightarrow>
     (\<forall>x msk. shape x = s \<longrightarrow> shape (self_attention l x x x msk) = s) \<and>
     (\<forall>x. shape x = s \<longrightarrow> shape (feed_forward l x) = s) \<and>
     (\<forall>x. shape x = s \<longrightarrow> shape (norm1 l x) = s) \<and>
     (\<forall>x. shape x = s \<longrightarrow> shape (norm2 l x) = s) \<and>
     (\<forall>k x. shape x = s \<longrightarrow> shape (dropout l k x) = s) \<and>
     (\<forall>x y. shape x = s \<and> shape y = s \<longrightarrow> shape (add x y) = s)"

section \<open>Properties stated below\<close>

text \<open>
  \<open>rows\<close> is \<open>seqs\<close> padded on the right with \<open>pad\<close>: one row per sequence, every
  row as long as the longest sequence, \<open>pad\<close> at every position from the sequence's
  own length on, and \<open>pad\<close> at an earlier position only where the sequence has it.
\<close>

definition right_padded :: "int \<Rightarrow> int list list \<Rightarrow> int list list \<Rightarrow> bool" where
  "right_padded pad seqs rows \<longleftrightarrow>
     length rows = length seqs \<and>
     (\<forall>i<length seqs.
        length (rows ! i) = max_len_in seqs \<and>
        (\<forall>j. length (seqs ! i) \<le> j \<and> j < max_len_in seqs \<longrightarrow> rows ! i ! j = pad) \<and>
        (\<forall>j<length (seqs ! i). rows ! i ! j = pad \<longrightarrow> pad \<in> set (seqs ! i)))"

text \<open>Row \<open>i\<close> of \<open>rows\<close> starts with the \<open>i\<close>-th sequence, token for token.\<close>

definition row_prefixes :: "int list list \<Rightarrow> int list list \<Rightarrow> bool" where
  "row_prefixes seqs rows \<longleftrightarrow>
     length rows = length seqs \<and>
     (\<forall>i<length seqs. take (length (seqs ! i)) (rows ! i) = seqs ! i)"

text \<open>
  No validation row has a \<open>'de'\<close> string that is also the \<open>'de'\<close> string of a training
  row.
\<close>

definition no_leakage :: "item list \<Rightarrow> item list \<Rightarrow> bool" where
  "no_leakage train val \<longleftrightarrow>
     (\<forall>s \<in> set val. \<forall>t \<in> set train. \<forall>d. de_of s = Inr d \<longrightarrow> de_of t \<noteq> Inr d)"

text \<open>The fallback constant where the loaded tokenizer defines no id.\<close>

definition resolved :: "int option \<Rightarrow> int \<Rightarrow> int option" where
  "resolved loaded fallback = (case loaded of Some i \<Rightarrow> Some i | None \<Rightarrow> Some fallback)"

text \<open>The two vocabulary lookups agree: the token found at an id has that id.\<close>

definition vocabulary_consistent :: "tokenizer \<Rightarrow> bool" where
  "vocabulary_consistent tok \<longleftrightarrow>
     (\<forall>i t. convert_ids_to_tokens tok i = Some t \<longrightarrow> convert_tokens_to_ids tok t = Some i)"

text \<open>
  A special token the loaded tokenizer gives no id, while its vocabulary has no token
  at the fallback id either.
\<close>

definition lacks_fallback :: "tokenizer \<Rightarrow> bool" where
  "lacks_fallback tok \<longleftrightarrow>
     (pad_token_id tok = None \<and> convert_ids_to_tokens tok 3 = None) \<or>
     (bos_token_id tok = None \<and> convert_ids_to_tokens tok 1 = None) \<or>
     (eos_token_id tok = None \<and> convert_ids_to_tokens tok 2 = None)"

section \<open>Concrete inputs for the witnesses and counterexamples\<close>

text \<open>
  A tokenizer as loaded from a file: a vocabulary of five tokens with ids 0 to 4 and
  no special token set. A surrounding in which the tokenizer file exists, the
  constructor answers the given tokenizer and the hub the two given splits. The
  arguments of a call of the process \<open>r\<close> of \<open>n\<close>, distributed when \<open>n\<close> exceeds 1,
  with the defaults of the signature otherwise.
\<close>

definition sample_vocabulary :: "(int \<times> string) list" where
  "sample_vocabulary =
     [(0, ''<unk>''), (1, ''<s>''), (2, ''</s>''), (3, ''<pad>''), (4, ''a'')]"

definition sample_tokenizer :: tokenizer where
  "sample_tokenizer =
     \<lparr>tokenize = map (\<lambda>c. if c = CHR ''a'' then 4 else 0), list_output = True,
      convert_ids_to_tokens = map_of sample_vocabulary,
      convert_tokens_to_ids = map_of (map (\<lambda>(i, t). (t, i)) sample_vocabulary),
      pad_token = None, bos_token = None, eos_token = None\<rparr>"

text \<open>A tokenizer with a vocabulary of two tokens only: ids 2 and 3 have no token.\<close>

definition small_tokenizer :: tokenizer where
  "small_tokenizer =
     \<lparr>tokenize = map (\<lambda>c. if c = CHR ''a'' then 1 else 0), list_output = True,
      convert_ids_to_tokens = map_of [(0, ''<unk>''), (1, ''a'')],
      convert_tokens_to_ids = map_of [(''<unk>'', 0), (''a'', 1)],
      pad_token = None, bos_token = None, eos_token = None\<rparr>"

definition sample_world :: "tokenizer \<Rightarrow> (error + item list) \<Rightarrow> (error + item list) \<Rightarrow> world" where
  "sample_world tok train val =
     \<lparr>environ_HF_HOME = None, user_home = ''/root'', module_dir = ''/repo/src'',
      path_exists = (\<lambda>p. p = ''/repo/src/../en-de-tokenizer.json''),
      rmtree = (\<lambda>p. None),
      PreTrainedTokenizerFast = (\<lambda>p. Inr tok),
      load_dataset = (\<lambda>name split. if split = ''train'' then train else val),
      shuffle = (\<lambda>seed rows. Inr rows)\<rparr>"

definition sample_args :: "int \<Rightarrow> int \<Rightarrow> args" where
  "sample_args r n =
     \<lparr>model_cfg = \<lparr>max_seq_len = 16\<rparr>,
      training_cfg = \<lparr>batch_size = 2, num_workers = None\<rparr>,
      tokenizer_path = ''tokenizer.json'', use_ddp = (1 < n), rank = r, world_size = n,
      dataset_name = ''bentrevett/multi30k'', dataset_config = None, subset_size = None,
      seed = 42\<rparr>"

section \<open>The collator pads on the right\<close>

text \<open>A pad value of magnitude at most \<open>2 ^ 53\<close> passes both conversions unchanged.\<close>

lemma double_shift_small: "m < 2 ^ 53 \<Longrightarrow> double_shift m = 0"
  by (simp add: double_shift.simps)

lemma double_shift_2_53: "double_shift (2 ^ 53) = 1"
proof -
  have "double_shift (2 ^ 53) = Suc (double_shift (2 ^ 53 div 2))"
    by (subst double_shift.simps) simp
  also have "(2 ^ 53 div 2 :: nat) = 2 ^ 52" by simp
  also have "double_shift (2 ^ 52) = 0" by (rule double_shift_small) simp
  finally show ?thesis by simp
qed

lemma nearest_double_exact:
  assumes "\<bar>n\<bar> \<le> 2 ^ 53"
  shows "nearest_double n = n"
proof (cases "\<bar>n\<bar> < 2 ^ 53")
  case True
  then have "nat \<bar>n\<bar> < 2 ^ 53" by (simp add: nat_less_iff)
  then have "double_shift (nat \<bar>n\<bar>) = 0" by (rule double_shift_small)
  then show ?thesis by (simp add: nearest_double_def Let_def sgn_mult_abs flip: abs_sgn)
next
  case False
  with assms have a: "\<bar>n\<bar> = 2 ^ 53" by simp
  then have m: "nat \<bar>n\<bar> = 2 ^ 53" by (simp add: nat_eq_iff)
  have q: "(2 ^ 53 :: nat) div 2 ^ 1 = 2 ^ 52" and r: "(2 ^ 53 :: nat) mod 2 ^ 1 = 0"
    by simp_all
  have "nearest_double n = sgn n * int (2 ^ 52 * 2 ^ 1)"
    unfolding nearest_double_def Let_def m double_shift_2_53 q r by simp
  also have "\<dots> = sgn n * \<bar>n\<bar>" using a by simp
  also have "\<dots> = n" by (rule sgn_mult_abs)
  finally show ?thesis .
qed

lemma as_double_exact: "\<bar>n\<bar> \<le> 2 ^ 53 \<Longrightarrow> as_double n = Inr n"
proof -
  assume a: "\<bar>n\<bar> \<le> 2 ^ 53"
  have "(2::int) ^ 53 < 2 ^ 1024" by simp
  with a have "\<bar>n\<bar> < 2 ^ 1024" by linarith
  with a show ?thesis by (simp add: as_double_def nearest_double_exact)
qed

lemma as_int64_exact: "\<bar>n\<bar> \<le> 2 ^ 53 \<Longrightarrow> as_int64 n = Inr n"
proof -
  assume a: "\<bar>n\<bar> \<le> 2 ^ 53"
  have "(2::int) ^ 53 < 2 ^ 63" by simp
  with a have "- (2 ^ 63) < n \<and> n < 2 ^ 63" by linarith
  then show ?thesis by (simp add: as_int64_def)
qed


lemma foldr_max_is_Max:
  "xs \<noteq> [] \<Longrightarrow> foldr max (map length xs) 0 = Max (length ` set xs)"
proof (induction xs)
  case Nil
  then show ?case by simp
next
  case (Cons x xs)
  show ?case
  proof (cases "xs = []")
    case True
    then show ?thesis by simp
  next
    case False
    with Cons have "foldr max (map length xs) 0 = Max (length ` set xs)" by simp
    moreover have "Max (length ` set (x # xs)) = max (length x) (Max (length ` set xs))"
      using False by simp
    ultimately show ?thesis by simp
  qed
qed

text \<open>The rows, once the pad value has passed both conversions as \<open>cell\<close>.\<close>

lemma pad_sequence_rows:
  assumes "sequences \<noteq> []" and "as_double p = Inr v" and "as_int64 v = Inr cell"
  shows "pad_sequence sequences p =
           Inr (map (\<lambda>s. s @ replicate (max_len_in sequences - length s) cell) sequences)"
  using assms by (simp add: pad_sequence_def max_len_in_def foldr_max_is_Max)

lemma pad_sequence_Inr:
  assumes "pad_sequence sequences p = Inr rows"
  shows "\<exists>cell. rows = map (\<lambda>s. s @ replicate (max_len_in sequences - length s) cell) sequences"
  using assms
  by (auto simp: pad_sequence_def max_len_in_def foldr_max_is_Max Let_def
           split: sum.splits if_splits)

lemma pad_sequence_exact:
  assumes "sequences \<noteq> []" and "\<bar>p\<bar> \<le> 2 ^ 53"
  shows "pad_sequence sequences p =
           Inr (map (\<lambda>s. s @ replicate (max_len_in sequences - length s) p) sequences)"
  using assms by (simp add: pad_sequence_rows as_double_exact as_int64_exact)

lemma length_le_max_len_in: "s \<in> set sequences \<Longrightarrow> length s \<le> max_len_in sequences"
  by (simp add: max_len_in_def)

lemma padded_rows_right_padded:
  "right_padded p seqs (map (\<lambda>s. s @ replicate (max_len_in seqs - length s) p) seqs)"
proof -
  let ?M = "max_len_in seqs"
  let ?rows = "map (\<lambda>s. s @ replicate (?M - length s) p) seqs"
  show "right_padded p seqs ?rows"
    unfolding right_padded_def
  proof (intro conjI allI impI)
    show "length ?rows = length seqs" by simp
  next
    fix i assume i: "i < length seqs"
    then have le: "length (seqs ! i) \<le> ?M" by (simp add: length_le_max_len_in)
    from i le show "length (?rows ! i) = ?M" by simp
  next
    fix i j assume i: "i < length seqs" and j: "length (seqs ! i) \<le> j \<and> j < ?M"
    then have "j - length (seqs ! i) < ?M - length (seqs ! i)" by arith
    with i j show "?rows ! i ! j = p" by (simp add: nth_append)
  next
    fix i j assume i: "i < length seqs" and j: "j < length (seqs ! i)" and "?rows ! i ! j = p"
    then have "seqs ! i ! j = p" by (simp add: nth_append)
    with j show "p \<in> set (seqs ! i)" by (metis nth_mem)
  qed
qed

lemma padded_rows_prefixes:
  "row_prefixes seqs (map (\<lambda>s. s @ replicate (max_len_in seqs - length s) c) seqs)"
  by (simp add: row_prefixes_def)

text \<open>
  Claim C3, amended. For a non-empty batch and a pad id of magnitude at most \<open>2 ^ 53\<close>,
  \<open>collate_fn\<close> returns two tensors with one row per example, every row as long as
  the longest sequence of its side in the batch; in each row every position from the
  example's own length on holds the pad id, and an earlier position holds the pad id
  only if the example's sequence contains it.
\<close>

theorem collate_fn_right_padded:
  assumes "batch \<noteq> []" and "\<bar>pad\<bar> \<le> 2 ^ 53"
  shows "\<exists>out. collate_fn batch pad = Inr out \<and>
           right_padded pad (map src batch) (src out) \<and>
           right_padded pad (map tgt batch) (tgt out)"
proof -
  from assms have s: "map src batch \<noteq> []" and t: "map tgt batch \<noteq> []" by simp_all
  from pad_sequence_exact [OF s assms(2)] pad_sequence_exact [OF t assms(2)]
  show ?thesis by (simp add: collate_fn_def padded_rows_right_padded del: map_map)
qed

theorem collate_fn_right_padded_witness:
  "[\<lparr>src = [1, 5, 2], tgt = [1, 2]\<rparr>, \<lparr>src = [1, 2], tgt = [1, 7, 8, 2]\<rparr>] \<noteq> ([] :: example list) \<and>
   \<bar>3 :: int\<bar> \<le> 2 ^ 53 \<and>
   collate_fn [\<lparr>src = [1, 5, 2], tgt = [1, 2]\<rparr>, \<lparr>src = [1, 2], tgt = [1, 7, 8, 2]\<rparr>] 3
     = Inr \<lparr>src = [[1, 5, 2], [1, 2, 3]], tgt = [[1, 2, 3, 3], [1, 7, 8, 2]]\<rparr> \<and>
   right_padded 3 [[1, 5, 2], [1, 2]] [[1, 5, 2], [1, 2, 3]] \<and>
   right_padded 3 [[1, 2], [1, 7, 8, 2]] [[1, 2, 3, 3], [1, 7, 8, 2]]"
proof -
  let ?b = "[\<lparr>src = [1, 5, 2], tgt = [1, 2]\<rparr>, \<lparr>src = [1, 2], tgt = [1, 7, 8, 2]\<rparr>] :: example list"
  have ne: "?b \<noteq> []" by simp
  have bd: "\<bar>3 :: int\<bar> \<le> 2 ^ 53" by simp
  have ev: "collate_fn ?b 3 = Inr \<lparr>src = [[1, 5, 2], [1, 2, 3]], tgt = [[1, 2, 3, 3], [1, 7, 8, 2]]\<rparr>"
    by (simp add: collate_fn_def pad_sequence_def as_double_exact as_int64_exact)
  from collate_fn_right_padded [OF ne bd] ev ne bd show ?thesis by simp
qed

lemma double_shift_2_53_1: "double_shift 9007199254740993 = 1"
proof -
  have "double_shift 9007199254740993 = Suc (double_shift 4503599627370496)"
    by (subst double_shift.simps) simp
  also have "double_shift 4503599627370496 = 0" by (rule double_shift_small) simp
  finally show ?thesis by simp
qed

lemma nearest_double_2_53_1: "nearest_double 9007199254740993 = 9007199254740992"
  by (simp add: nearest_double_def Let_def double_shift_2_53_1)

text \<open>
  Claim C3 as stated fails: the pad id \<open>2 ^ 53 + 1\<close> is no double, and the padded
  position of the shorter row holds \<open>2 ^ 53\<close> instead.
\<close>

theorem pad_beyond_2_53_is_rounded:
  "collate_fn [\<lparr>src = [1, 5, 2], tgt = [1, 2]\<rparr>, \<lparr>src = [1, 2], tgt = [1, 2]\<rparr>] 9007199254740993
     = Inr \<lparr>src = [[1, 5, 2], [1, 2, 9007199254740992]], tgt = [[1, 2], [1, 2]]\<rparr> \<and>
   [[1, 5, 2], [1, 2, 9007199254740992]] ! 1 ! 2 \<noteq> (9007199254740993 :: int) \<and>
   \<not> right_padded 9007199254740993 [[1, 5, 2], [1, 2]] [[1, 5, 2], [1, 2, 9007199254740992]]"
proof -
  have ev: "collate_fn [\<lparr>src = [1, 5, 2], tgt = [1, 2]\<rparr>, \<lparr>src = [1, 2], tgt = [1, 2]\<rparr>] 9007199254740993
     = Inr \<lparr>src = [[1, 5, 2], [1, 2, 9007199254740992]], tgt = [[1, 2], [1, 2]]\<rparr>"
    by (simp add: collate_fn_def pad_sequence_def as_double_def as_int64_def nearest_double_2_53_1)
  have c: "[[1, 5, 2], [1, 2, 9007199254740992]] ! 1 ! 2 \<noteq> (9007199254740993 :: int)" by simp
  have m: "max_len_in [[1, 5, 2], [1, 2]] = 3" by (simp add: max_len_in_def)
  have "\<not> right_padded 9007199254740993 [[1, 5, 2], [1, 2]] [[1, 5, 2], [1, 2, 9007199254740992]]"
  proof
    assume "right_padded 9007199254740993 [[1, 5, 2], [1, 2]] [[1, 5, 2], [1, 2, 9007199254740992]]"
    note r = this [unfolded right_padded_def, THEN conjunct2, THEN spec, of 1]
    have i: "(1::nat) < length [[1, 5, 2], [1, 2 :: int]]" by simp
    note t = r [THEN mp, OF i, THEN conjunct2, THEN conjunct1, THEN spec, of 2]
    from t m have "[[1, 5, 2], [1, 2, 9007199254740992]] ! 1 ! 2 = (9007199254740993 :: int)"
      by simp
    with c show False by simp
  qed
  with ev c show ?thesis by simp
qed

text \<open>
  Claim C10. For a non-empty batch, \<open>collate_fn\<close> keeps the order of the examples
  and the pairing of the two sides: in whatever it returns, row \<open>i\<close> of the source
  tensor starts with the source sequence of the \<open>i\<close>-th example and row \<open>i\<close> of the
  target tensor with its target sequence, unchanged; and it does return for every pad
  id of magnitude at most \<open>2 ^ 53\<close>.
\<close>

theorem collate_fn_keeps_rows:
  assumes "batch \<noteq> []"
  shows "(\<forall>out. collate_fn batch pad = Inr out \<longrightarrow>
            row_prefixes (map src batch) (src out) \<and>
            row_prefixes (map tgt batch) (tgt out)) \<and>
         (\<bar>pad\<bar> \<le> 2 ^ 53 \<longrightarrow> (\<exists>out. collate_fn batch pad = Inr out))"
proof (intro conjI allI impI)
  fix out assume c: "collate_fn batch pad = Inr out"
  then obtain rs rt where rs: "pad_sequence (map src batch) pad = Inr rs"
    and rt: "pad_sequence (map tgt batch) pad = Inr rt"
    and out: "out = \<lparr>src = rs, tgt = rt\<rparr>"
    by (auto simp: collate_fn_def Let_def split: sum.splits)
  from pad_sequence_Inr [OF rs] pad_sequence_Inr [OF rt] out
  show "row_prefixes (map src batch) (src out)" and "row_prefixes (map tgt batch) (tgt out)"
    by (auto simp: padded_rows_prefixes simp del: map_map)
next
  assume b: "\<bar>pad\<bar> \<le> 2 ^ 53"
  from assms have s: "map src batch \<noteq> []" and t: "map tgt batch \<noteq> []" by simp_all
  from pad_sequence_exact [OF s b] pad_sequence_exact [OF t b]
  show "\<exists>out. collate_fn batch pad = Inr out" by (simp add: collate_fn_def)
qed

theorem collate_fn_keeps_rows_witness:
  "[\<lparr>src = [1, 9, 2], tgt = [1, 2]\<rparr>, \<lparr>src = [1, 2], tgt = [1, 4, 2]\<rparr>] \<noteq> ([] :: example list) \<and>
   \<bar>0 :: int\<bar> \<le> 2 ^ 53 \<and>
   collate_fn [\<lparr>src = [1, 9, 2], tgt = [1, 2]\<rparr>, \<lparr>src = [1, 2], tgt = [1, 4, 2]\<rparr>] 0
     = Inr \<lparr>src = [[1, 9, 2], [1, 2, 0]], tgt = [[1, 2, 0], [1, 4, 2]]\<rparr> \<and>
   row_prefixes [[1, 9, 2], [1, 2]] [[1, 9, 2], [1, 2, 0]] \<and>
   row_prefixes [[1, 2], [1, 4, 2]] [[1, 2, 0], [1, 4, 2]]"
proof -
  let ?b = "[\<lparr>src = [1, 9, 2], tgt = [1, 2]\<rparr>, \<lparr>src = [1, 2], tgt = [1, 4, 2]\<rparr>] :: example list"
  have ne: "?b \<noteq> []" by simp
  have bd: "\<bar>0 :: int\<bar> \<le> 2 ^ 53" by simp
  have ev: "collate_fn ?b 0 = Inr \<lparr>src = [[1, 9, 2], [1, 2, 0]], tgt = [[1, 2, 0], [1, 4, 2]]\<rparr>"
    by (simp add: collate_fn_def pad_sequence_def as_double_exact as_int64_exact)
  from collate_fn_keeps_rows [OF ne, of 0] ev ne bd show ?thesis by simp
qed

section \<open>The transform frames and bounds every sequence\<close>

lemma list_index_in_set:
  "list_index xs idx = Inr x \<Longrightarrow> x \<in> set xs"
  by (auto simp: list_index_def Let_def split: if_splits)

lemma list_index_in_range:
  assumes "- int (length xs) \<le> idx" "idx < int (length xs)"
  shows "\<exists>x. list_index xs idx = Inr x"
  using assms by (auto simp: list_index_def Let_def)

lemma texts_of_corpus_record:
  assumes "corpus_record keys item"
  shows "\<exists>s t. texts_of keys item = Inr (Str s, Str t)"
  using assms
  by (auto simp: corpus_record_def texts_of_def getkey_def
           split: option.splits pyval.splits)

lemma framed_wrap:
  assumes "0 \<le> n"
  shows "framed b e (n + 2) ([b] @ take (nat n) xs @ [e])"
  using assms by (simp add: framed_def)

lemma transform_framed:
  assumes rec: "corpus_record (lang_keys self) item"
      and L: "2 \<le> max_length self"
  shows "\<exists>ex. transform self item = Inr ex \<and>
           framed (bos_id_of (tokenizer_of self)) (eos_id_of (tokenizer_of self))
                  (max_length self) (src ex) \<and>
           framed (bos_id_of (tokenizer_of self)) (eos_id_of (tokenizer_of self))
                  (max_length self) (tgt ex)"
proof -
  from texts_of_corpus_record [OF rec] obtain s t
    where tx: "texts_of (lang_keys self) item = Inr (Str s, Str t)" by blast
  let ?n = "max_length self - 2"
  from L have n: "0 \<le> ?n" by simp
  have fr: "\<And>xs. framed (bos_id_of (tokenizer_of self)) (eos_id_of (tokenizer_of self))
                  (max_length self) ([bos_id_of (tokenizer_of self)] @ take (nat ?n) xs @ [eos_id_of (tokenizer_of self)])"
    using framed_wrap [OF n] by simp
  show ?thesis
  proof (cases "list_output (tokenizer_of self)")
    case True
    with tx n fr show ?thesis by (simp add: transform_def encode_def Let_def)
  next
    case False
    with tx n fr show ?thesis by (simp add: transform_def encode_def Let_def)
  qed
qed

text \<open>
  Claim C2. For a dataset whose rows are corpus records (flat, or nested under
  \<open>'translation'\<close>), any index Python accepts and a maximum length of at least 2,
  \<open>__getitem__\<close> returns a source and a target sequence that each begin with the BOS
  id, end with the EOS id and have a length between 2 and the maximum length.
\<close>

theorem getitem_framed:
  assumes recs: "\<forall>item \<in> set (data self). corpus_record (lang_keys self) item"
      and idx: "- int (length (data self)) \<le> idx" "idx < int (length (data self))"
      and L: "2 \<le> max_length self"
  shows "\<exists>ex. getitem self idx = Inr ex \<and>
           framed (bos_id_of (tokenizer_of self)) (eos_id_of (tokenizer_of self))
                  (max_length self) (src ex) \<and>
           framed (bos_id_of (tokenizer_of self)) (eos_id_of (tokenizer_of self))
                  (max_length self) (tgt ex)"
proof -
  from list_index_in_range [OF idx] obtain item
    where it: "list_index (data self) idx = Inr item" by blast
  then have "item \<in> set (data self)" by (rule list_index_in_set)
  with recs have "corpus_record (lang_keys self) item" by blast
  from transform_framed [OF this L] it show ?thesis by (simp add: getitem_def)
qed

theorem getitem_framed_witness:
  "getitem \<lparr>data = [[(''en'', Str ''abcdef''), (''de'', Str ''xy'')],
                    [(''translation'', Dict [(''en'', ''a''), (''de'', ''bcd'')])]],
            tokenizer_of =
              \<lparr>tokenize = map (\<lambda>c. if c = CHR ''a'' then 10 else 11), list_output = True,
               convert_ids_to_tokens = (\<lambda>i. if i = 7 then Some ''</s>'' else None),
               convert_tokens_to_ids = (\<lambda>t. if t = ''</s>'' then Some 7 else None),
               pad_token = None, bos_token = None, eos_token = Some ''</s>''\<rparr>,
            max_length = 5, lang_keys = (''en'', ''de'')\<rparr> 0
     = Inr \<lparr>src = [1, 10, 11, 11, 7], tgt = [1, 11, 11, 7]\<rparr> \<and>
   framed 1 7 5 [1, 10, 11, 11, 7] \<and> framed 1 7 5 [1, 11, 11, 7] \<and>
   transform \<lparr>data = [], tokenizer_of =
              \<lparr>tokenize = map (\<lambda>c. if c = CHR ''a'' then 10 else 11), list_output = True,
               convert_ids_to_tokens = (\<lambda>i. if i = 7 then Some ''</s>'' else None),
               convert_tokens_to_ids = (\<lambda>t. if t = ''</s>'' then Some 7 else None),
               pad_token = None, bos_token = None, eos_token = Some ''</s>''\<rparr>,
            max_length = 5, lang_keys = (''en'', ''de'')\<rparr>
        [(''translation'', Dict [(''en'', ''a''), (''de'', ''bcdef'')])]
     = Inr \<lparr>src = [1, 10, 7], tgt = [1, 11, 11, 11, 7]\<rparr>"
proof -
  let ?tok = "\<lparr>tokenize = map (\<lambda>c. if c = CHR ''a'' then 10 else (11::int)), list_output = True,
               convert_ids_to_tokens = (\<lambda>i. if i = 7 then Some ''</s>'' else None),
               convert_tokens_to_ids = (\<lambda>t. if t = ''</s>'' then Some 7 else None),
               pad_token = None, bos_token = None, eos_token = Some ''</s>''\<rparr>"
  let ?ds = "\<lparr>data = [[(''en'', Str ''abcdef''), (''de'', Str ''xy'')],
                    [(''translation'', Dict [(''en'', ''a''), (''de'', ''bcd'')])]],
            tokenizer_of = ?tok, max_length = 5, lang_keys = (''en'', ''de'')\<rparr>"
  have recs: "\<forall>item \<in> set (data ?ds). corpus_record (lang_keys ?ds) item"
    by (simp add: corpus_record_def)
  have i1: "- int (length (data ?ds)) \<le> 0" and i2: "0 < int (length (data ?ds))"
    and L: "2 \<le> max_length ?ds" by simp_all
  have ev: "getitem ?ds 0 = Inr \<lparr>src = [1, 10, 11, 11, 7], tgt = [1, 11, 11, 7]\<rparr>"
    by (simp add: getitem_def list_index_def transform_def texts_of_def getkey_def
                  encode_def bos_id_of_def eos_id_of_def bos_token_id_def eos_token_id_def)
  have nested: "transform \<lparr>data = [], tokenizer_of = ?tok, max_length = 5,
                             lang_keys = (''en'', ''de'')\<rparr>
                   [(''translation'', Dict [(''en'', ''a''), (''de'', ''bcdef'')])]
                  = Inr \<lparr>src = [1, 10, 7], tgt = [1, 11, 11, 11, 7]\<rparr>"
    by (simp add: transform_def texts_of_def getkey_def encode_def bos_id_of_def eos_id_of_def bos_token_id_def eos_token_id_def)
  from getitem_framed [OF recs i1 i2 L] ev nested show ?thesis
    by (simp add: bos_id_of_def eos_id_of_def bos_token_id_def eos_token_id_def)
qed

section \<open>The leakage filter\<close>

lemma de_sentences_Inr_iff:
  "(\<exists>ds. de_sentences xs = Inr ds) \<longleftrightarrow> (\<forall>s \<in> set xs. \<exists>d. de_of s = Inr d)"
  by (induction xs) (auto split: sum.splits)

lemma de_sentences_set:
  "de_sentences xs = Inr ds \<Longrightarrow> set ds = {d. \<exists>s \<in> set xs. de_of s = Inr d}"
  by (induction xs arbitrary: ds) (auto split: sum.splits)

lemma leaked_samples_of_filter:
  assumes "\<forall>s \<in> set xs. \<exists>d. de_of s = Inr d"
  shows "leaked_samples_of S xs = Inr (filter (is_leaked S) xs)"
  using assms by (induction xs) (auto simp: is_leaked_def split: sum.splits)

lemma leaked_samples_of_Inr:
  "leaked_samples_of S xs = Inr l \<Longrightarrow> \<forall>s \<in> set xs. \<exists>d. de_of s = Inr d"
  by (induction xs arbitrary: l) (auto split: sum.splits)

lemma filter_not_in_filter:
  assumes "\<forall>s \<in> set xs. \<exists>d. de_of s = Inr d"
  shows "filter_not_in S xs = Inr (filter (\<lambda>s. \<not> is_leaked S s) xs)"
  using assms by (induction xs) (auto simp: is_leaked_def split: sum.splits)

lemma is_leaked_among_leaked:
  assumes ds: "de_sentences (filter (is_leaked S) xs) = Inr ds" and s: "s \<in> set xs"
  shows "is_leaked (set ds) s \<longleftrightarrow> is_leaked S s"
proof
  assume "is_leaked (set ds) s"
  then obtain d where d: "de_of s = Inr d" "d \<in> set ds"
    by (auto simp: is_leaked_def split: sum.splits)
  with de_sentences_set [OF ds] obtain s' where "s' \<in> set xs" "is_leaked S s'" "de_of s' = Inr d"
    by auto
  with d show "is_leaked S s" by (simp add: is_leaked_def)
next
  assume l: "is_leaked S s"
  then obtain d where d: "de_of s = Inr d" by (auto simp: is_leaked_def split: sum.splits)
  with l s de_sentences_set [OF ds] have "d \<in> set ds" by auto
  with d show "is_leaked (set ds) s" by (simp add: is_leaked_def)
qed

lemma list_index_0: "xs \<noteq> [] \<Longrightarrow> list_index xs 0 = Inr (hd xs)"
  by (cases xs) (simp_all add: list_index_def)

text \<open>The leakage block when every row it reads has a \<open>'de'\<close> string.\<close>

lemma leakage_filter_unfold:
  assumes tr: "de_sentences train_data = Inr train_de"
      and vl: "\<forall>s \<in> set val_data. \<exists>d. de_of s = Inr d"
  shows "leakage_filter train_data val_data =
           (let leaked = filter (is_leaked (set train_de)) val_data;
                kept = filter (\<lambda>s. \<not> is_leaked (set train_de) s) val_data
            in if leaked = [] then ([Leakage_check_start, Check_passed], Inr val_data)
               else ([Leakage_check_start, Banner_rule, Fatal_leakage_confirmed, Banner_rule,
                      Found_leaked (length leaked)] @
                     (case de_of (hd leaked) of Inr d \<Rightarrow> [Example_leaked d] | Inl _ \<Rightarrow> []) @
                     [Proceeding_by_filtering,
                      Filtered (int (length val_data) - int (length kept)),
                      Check_passed_after_filtering],
                     Inr kept))"
proof -
  let ?S = "set train_de"
  let ?leaked = "filter (is_leaked ?S) val_data"
  let ?kept = "filter (\<lambda>s. \<not> is_leaked ?S s) val_data"
  have ls: "leaked_samples_of ?S val_data = Inr ?leaked"
    using vl by (rule leaked_samples_of_filter)
  show ?thesis
  proof (cases "?leaked = []")
    case True
    with tr ls show ?thesis by (simp add: leakage_filter_def)
  next
    case False
    then have hd_in: "hd ?leaked \<in> set ?leaked" by (rule hd_in_set)
    have "set ?leaked \<subseteq> set val_data" by (rule filter_is_subset)
    with hd_in have "hd ?leaked \<in> set val_data" by (rule subsetD [rotated])
    with vl obtain d0 where d0: "de_of (hd ?leaked) = Inr d0" by blast
    have "\<forall>s \<in> set ?leaked. \<exists>d. de_of s = Inr d" using vl by simp
    then obtain lde where lde: "de_sentences ?leaked = Inr lde"
      using de_sentences_Inr_iff by blast
    have "\<And>s. s \<in> set val_data \<Longrightarrow> (\<not> is_leaked (set lde) s) = (\<not> is_leaked ?S s)"
      using is_leaked_among_leaked [OF lde] by simp
    then have "filter (\<lambda>s. \<not> is_leaked (set lde) s) val_data = ?kept"
      by (simp cong: filter_cong)
    then have fn: "filter_not_in (set lde) val_data = Inr ?kept"
      using filter_not_in_filter [OF vl, of "set lde"] by simp
    from False tr ls d0 lde fn show ?thesis
      by (simp add: leakage_filter_def list_index_0 Let_def)
  qed
qed

lemma length_filter_split:
  "int (length xs) - int (length (filter (\<lambda>s. \<not> P s) xs)) = int (length (filter P xs))"
  using sum_length_filter_compl [of P xs] by simp

text \<open>What a run of the block that does not raise has read and answers.\<close>

lemma leakage_filter_Inr:
  assumes "snd (leakage_filter train_data val_data) = Inr val_data'"
  shows "\<exists>train_de. de_sentences train_data = Inr train_de \<and>
           (\<forall>s \<in> set val_data. \<exists>d. de_of s = Inr d) \<and>
           val_data' = filter (\<lambda>s. \<not> is_leaked (set train_de) s) val_data"
proof -
  from assms obtain train_de where tr: "de_sentences train_data = Inr train_de"
    by (auto simp: leakage_filter_def split: sum.splits)
  with assms obtain l where "leaked_samples_of (set train_de) val_data = Inr l"
    by (auto simp: leakage_filter_def split: sum.splits)
  then have all: "\<forall>s \<in> set val_data. \<exists>d. de_of s = Inr d" by (rule leaked_samples_of_Inr)
  let ?kept = "filter (\<lambda>s. \<not> is_leaked (set train_de) s) val_data"
  have "snd (leakage_filter train_data val_data) = Inr ?kept"
  proof (cases "filter (is_leaked (set train_de)) val_data = []")
    case True
    then have "\<forall>s \<in> set val_data. \<not> is_leaked (set train_de) s"
      by (simp add: filter_empty_conv)
    then have "?kept = val_data" by simp
    with True leakage_filter_unfold [OF tr all] show ?thesis by simp
  next
    case False
    with leakage_filter_unfold [OF tr all] show ?thesis by (simp add: Let_def)
  qed
  with assms tr all show ?thesis by simp
qed

lemma leakage_filter_no_leakage:
  assumes "snd (leakage_filter train_data val_data) = Inr val_data'"
  shows "no_leakage train_data val_data'"
proof -
  from leakage_filter_Inr [OF assms] obtain train_de
    where tr: "de_sentences train_data = Inr train_de"
      and k: "val_data' = filter (\<lambda>s. \<not> is_leaked (set train_de) s) val_data" by blast
  show ?thesis
    unfolding no_leakage_def
  proof (intro ballI allI impI notI)
    fix s t d
    assume s: "s \<in> set val_data'" and t: "t \<in> set train_data"
      and sd: "de_of s = Inr d" and td: "de_of t = Inr d"
    from t td de_sentences_set [OF tr] have "d \<in> set train_de" by auto
    with sd have "is_leaked (set train_de) s" by (simp add: is_leaked_def)
    with s k show False by simp
  qed
qed

text \<open>
  Claim C4. When every training and validation row carries a \<open>'de'\<close> string, the
  leakage filter keeps exactly the validation rows whose \<open>'de'\<close> string is not among
  the training \<open>'de'\<close> strings. With no leaked row it leaves the validation rows
  unchanged; otherwise it reports the number of leaked rows, which is the number of rows
  removed. The witness is the example with training targets Hallo and Welt.
\<close>

theorem leakage_filter_removes_leaked:
  assumes tr: "de_sentences train_data = Inr train_de"
      and vl: "de_sentences val_data = Inr val_de"
  shows "snd (leakage_filter train_data val_data)
           = Inr (filter (\<lambda>s. \<not> is_leaked (set train_de) s) val_data) \<and>
         (if filter (is_leaked (set train_de)) val_data = []
          then leakage_filter train_data val_data
                 = ([Leakage_check_start, Check_passed], Inr val_data)
          else Found_leaked (length (filter (is_leaked (set train_de)) val_data))
                 \<in> set (fst (leakage_filter train_data val_data)) \<and>
               Filtered (int (length (filter (is_leaked (set train_de)) val_data)))
                 \<in> set (fst (leakage_filter train_data val_data)))"
proof -
  from vl have all: "\<forall>s \<in> set val_data. \<exists>d. de_of s = Inr d"
    using de_sentences_Inr_iff by blast
  note u = leakage_filter_unfold [OF tr all]
  let ?leaked = "filter (is_leaked (set train_de)) val_data"
  show ?thesis
  proof (cases "?leaked = []")
    case True
    then have "\<forall>s \<in> set val_data. \<not> is_leaked (set train_de) s"
      by (simp add: filter_empty_conv)
    then have "filter (\<lambda>s. \<not> is_leaked (set train_de) s) val_data = val_data" by simp
    with True u show ?thesis by simp
  next
    case False
    with u show ?thesis by (simp add: Let_def length_filter_split)
  qed
qed

theorem leakage_filter_removes_leaked_witness:
  "leakage_filter [[(''src'', Str ''a''), (''de'', Str ''Hallo'')],
                   [(''src'', Str ''b''), (''de'', Str ''Welt'')]]
                  [[(''src'', Str ''x''), (''de'', Str ''Hallo'')],
                   [(''src'', Str ''y''), (''de'', Str ''Katze'')]]
     = ([Leakage_check_start, Banner_rule, Fatal_leakage_confirmed, Banner_rule, Found_leaked 1,
         Example_leaked ''Hallo'', Proceeding_by_filtering, Filtered 1,
         Check_passed_after_filtering],
        Inr [[(''src'', Str ''y''), (''de'', Str ''Katze'')]]) \<and>
   filter (\<lambda>s. \<not> is_leaked (set [''Hallo'', ''Welt'']) s)
          [[(''src'', Str ''x''), (''de'', Str ''Hallo'')],
           [(''src'', Str ''y''), (''de'', Str ''Katze'')]]
     = [[(''src'', Str ''y''), (''de'', Str ''Katze'')]]"
proof -
  let ?train = "[[(''src'', Str ''a''), (''de'', Str ''Hallo'')],
                 [(''src'', Str ''b''), (''de'', Str ''Welt'')]]"
  let ?val = "[[(''src'', Str ''x''), (''de'', Str ''Hallo'')],
               [(''src'', Str ''y''), (''de'', Str ''Katze'')]]"
  have tr: "de_sentences ?train = Inr [''Hallo'', ''Welt'']"
    by (simp add: de_of_def getkey_def)
  have vl: "de_sentences ?val = Inr [''Hallo'', ''Katze'']"
    by (simp add: de_of_def getkey_def)
  have ev: "leakage_filter ?train ?val
     = ([Leakage_check_start, Banner_rule, Fatal_leakage_confirmed, Banner_rule, Found_leaked 1,
         Example_leaked ''Hallo'', Proceeding_by_filtering, Filtered 1,
         Check_passed_after_filtering],
        Inr [[(''src'', Str ''y''), (''de'', Str ''Katze'')]])"
    by (simp add: leakage_filter_def de_of_def getkey_def list_index_def)
  from leakage_filter_removes_leaked [OF tr vl] ev show ?thesis by simp
qed

text \<open>
  Claim C7. The leakage filter is idempotent: when it has answered a validation set,
  running it again on that set finds no leak and answers the same set.
\<close>

theorem leakage_filter_idempotent:
  assumes "snd (leakage_filter train_data val_data) = Inr val_data'"
  shows "leakage_filter train_data val_data' = ([Leakage_check_start, Check_passed], Inr val_data')"
proof -
  from leakage_filter_Inr [OF assms] obtain train_de
    where tr: "de_sentences train_data = Inr train_de"
      and all: "\<forall>s \<in> set val_data. \<exists>d. de_of s = Inr d"
      and k: "val_data' = filter (\<lambda>s. \<not> is_leaked (set train_de) s) val_data" by blast
  from k all have all': "\<forall>s \<in> set val_data'. \<exists>d. de_of s = Inr d" by simp
  from k have "filter (is_leaked (set train_de)) val_data' = []" by simp
  with leakage_filter_unfold [OF tr all'] show ?thesis by simp
qed

theorem leakage_filter_idempotent_witness:
  "snd (leakage_filter [[(''en'', Str ''hello''), (''de'', Str ''Hallo'')]]
                       [[(''en'', Str ''hi''), (''de'', Str ''Hallo'')],
                        [(''en'', Str ''cat''), (''de'', Str ''Katze'')],
                        [(''en'', Str ''hey''), (''de'', Str ''Hallo'')]])
     = Inr [[(''en'', Str ''cat''), (''de'', Str ''Katze'')]] \<and>
   leakage_filter [[(''en'', Str ''hello''), (''de'', Str ''Hallo'')]]
                  [[(''en'', Str ''cat''), (''de'', Str ''Katze'')]]
     = ([Leakage_check_start, Check_passed], Inr [[(''en'', Str ''cat''), (''de'', Str ''Katze'')]])"
proof -
  have ev: "snd (leakage_filter [[(''en'', Str ''hello''), (''de'', Str ''Hallo'')]]
                       [[(''en'', Str ''hi''), (''de'', Str ''Hallo'')],
                        [(''en'', Str ''cat''), (''de'', Str ''Katze'')],
                        [(''en'', Str ''hey''), (''de'', Str ''Hallo'')]])
     = Inr [[(''en'', Str ''cat''), (''de'', Str ''Katze'')]]"
    by (simp add: leakage_filter_def de_of_def getkey_def list_index_def)
  from leakage_filter_idempotent [OF ev] ev show ?thesis by simp
qed

section \<open>The special tokens after the fallbacks\<close>

lemma set_token_id_fields:
  "pad_token (set_pad_token_id t i) = convert_ids_to_tokens t i"
  "bos_token (set_pad_token_id t i) = bos_token t"
  "eos_token (set_pad_token_id t i) = eos_token t"
  "pad_token (set_bos_token_id t i) = pad_token t"
  "bos_token (set_bos_token_id t i) = convert_ids_to_tokens t i"
  "eos_token (set_bos_token_id t i) = eos_token t"
  "pad_token (set_eos_token_id t i) = pad_token t"
  "bos_token (set_eos_token_id t i) = bos_token t"
  "eos_token (set_eos_token_id t i) = convert_ids_to_tokens t i"
  "convert_tokens_to_ids (set_pad_token_id t i) = convert_tokens_to_ids t"
  "convert_tokens_to_ids (set_bos_token_id t i) = convert_tokens_to_ids t"
  "convert_tokens_to_ids (set_eos_token_id t i) = convert_tokens_to_ids t"
  "convert_ids_to_tokens (set_pad_token_id t i) = convert_ids_to_tokens t"
  "convert_ids_to_tokens (set_bos_token_id t i) = convert_ids_to_tokens t"
  "convert_ids_to_tokens (set_eos_token_id t i) = convert_ids_to_tokens t"
  by (simp_all add: set_pad_token_id_def set_bos_token_id_def set_eos_token_id_def)

lemma other_token_ids_kept:
  "bos_token_id (set_pad_token_id t i) = bos_token_id t"
  "eos_token_id (set_pad_token_id t i) = eos_token_id t"
  "pad_token_id (set_bos_token_id t i) = pad_token_id t"
  "eos_token_id (set_bos_token_id t i) = eos_token_id t"
  "pad_token_id (set_eos_token_id t i) = pad_token_id t"
  "bos_token_id (set_eos_token_id t i) = bos_token_id t"
  by (simp_all add: pad_token_id_def bos_token_id_def eos_token_id_def set_token_id_fields
        split: option.splits)

lemma token_present_if_id:
  "pad_token_id t = Some i \<Longrightarrow> pad_token t \<noteq> None"
  "bos_token_id t = Some i \<Longrightarrow> bos_token t \<noteq> None"
  "eos_token_id t = Some i \<Longrightarrow> eos_token t \<noteq> None"
  by (auto simp: pad_token_id_def bos_token_id_def eos_token_id_def split: option.splits)

lemma assign_fallback_ids_fields:
  "pad_token (assign_fallback_ids t0)
     = (if pad_token_id t0 = None then convert_ids_to_tokens t0 3 else pad_token t0)"
  "bos_token (assign_fallback_ids t0)
     = (if bos_token_id t0 = None then convert_ids_to_tokens t0 1 else bos_token t0)"
  "eos_token (assign_fallback_ids t0)
     = (if eos_token_id t0 = None then convert_ids_to_tokens t0 2 else eos_token t0)"
  "convert_tokens_to_ids (assign_fallback_ids t0) = convert_tokens_to_ids t0"
  "convert_ids_to_tokens (assign_fallback_ids t0) = convert_ids_to_tokens t0"
  by (auto simp: assign_fallback_ids_def Let_def set_token_id_fields other_token_ids_kept)

lemma first_token_of_missing:
  "pad_token t = None \<Longrightarrow>
     first_token_of t (pad_token_id t) = Inl (TypeError ''int() argument must be a number, not NoneType'')"
  "bos_token t = None \<Longrightarrow>
     first_token_of t (bos_token_id t) = Inl (TypeError ''int() argument must be a number, not NoneType'')"
  "eos_token t = None \<Longrightarrow>
     first_token_of t (eos_token_id t) = Inl (TypeError ''int() argument must be a number, not NoneType'')"
  by (simp_all add: first_token_of_def pad_token_id_def bos_token_id_def eos_token_id_def)

text \<open>The fallbacks either raise on a missing token or answer the tokenizer of lines 113--119.\<close>

lemma ensure_special_tokens_unfold:
  "ensure_special_tokens t0 =
     (if pad_token (assign_fallback_ids t0) = None \<or> bos_token (assign_fallback_ids t0) = None \<or>
         eos_token (assign_fallback_ids t0) = None
      then Inl (TypeError ''int() argument must be a number, not NoneType'')
      else Inr (assign_fallback_ids t0))"
  by (simp add: ensure_special_tokens_def Let_def first_token_of_missing)

lemma missing_token_iff:
  "pad_token (assign_fallback_ids t0) = None \<or> bos_token (assign_fallback_ids t0) = None \<or>
   eos_token (assign_fallback_ids t0) = None \<longleftrightarrow> lacks_fallback t0"
  using token_present_if_id [of t0]
  by (auto simp: assign_fallback_ids_fields lacks_fallback_def split: if_splits)

lemma ensure_special_tokens_lacks:
  "lacks_fallback t0 \<Longrightarrow>
     ensure_special_tokens t0 = Inl (TypeError ''int() argument must be a number, not NoneType'')"
  using missing_token_iff [of t0] by (simp add: ensure_special_tokens_unfold)

lemma ensure_special_tokens_Inr:
  "ensure_special_tokens t0 = Inr tok \<Longrightarrow> tok = assign_fallback_ids t0 \<and> \<not> lacks_fallback t0"
  using missing_token_iff [of t0] by (simp add: ensure_special_tokens_unfold split: if_splits)

lemma resolved_ids:
  assumes vc: "vocabulary_consistent t0" and ok: "\<not> lacks_fallback t0"
  shows "pad_token_id (assign_fallback_ids t0) = resolved (pad_token_id t0) 3"
    and "bos_token_id (assign_fallback_ids t0) = resolved (bos_token_id t0) 1"
    and "eos_token_id (assign_fallback_ids t0) = resolved (eos_token_id t0) 2"
proof -
  from vc have rt: "\<And>i t. convert_ids_to_tokens t0 i = Some t \<Longrightarrow> convert_tokens_to_ids t0 t = Some i"
    by (simp add: vocabulary_consistent_def)
  show "pad_token_id (assign_fallback_ids t0) = resolved (pad_token_id t0) 3"
  proof (cases "pad_token_id t0")
    case None
    with ok obtain t where t: "convert_ids_to_tokens t0 3 = Some t"
      by (auto simp: lacks_fallback_def)
    with None rt [OF t] show ?thesis
      by (simp add: pad_token_id_def [of "assign_fallback_ids t0"] assign_fallback_ids_fields
            resolved_def)
  next
    case (Some i)
    then show ?thesis
      by (simp add: pad_token_id_def assign_fallback_ids_fields resolved_def
            split: option.splits)
  qed
  show "bos_token_id (assign_fallback_ids t0) = resolved (bos_token_id t0) 1"
  proof (cases "bos_token_id t0")
    case None
    with ok obtain t where t: "convert_ids_to_tokens t0 1 = Some t"
      by (auto simp: lacks_fallback_def)
    with None rt [OF t] show ?thesis
      by (simp add: bos_token_id_def [of "assign_fallback_ids t0"] assign_fallback_ids_fields
            resolved_def)
  next
    case (Some i)
    then show ?thesis
      by (simp add: bos_token_id_def assign_fallback_ids_fields resolved_def
            split: option.splits)
  qed
  show "eos_token_id (assign_fallback_ids t0) = resolved (eos_token_id t0) 2"
  proof (cases "eos_token_id t0")
    case None
    with ok obtain t where t: "convert_ids_to_tokens t0 2 = Some t"
      by (auto simp: lacks_fallback_def)
    with None rt [OF t] show ?thesis
      by (simp add: eos_token_id_def [of "assign_fallback_ids t0"] assign_fallback_ids_fields
            resolved_def)
  next
    case (Some i)
    then show ?thesis
      by (simp add: eos_token_id_def assign_fallback_ids_fields resolved_def
            split: option.splits)
  qed
qed


section \<open>The validation dataset of a returning call\<close>

text \<open>The validation rows of the dataset the \<open>try\<close> body builds.\<close>

lemma build_datasets_val:
  assumes b: "snd (build_datasets w a tok) = Inr (train_dataset, val_dataset)"
      and tr: "load_dataset w (dataset_name a) ''train'' = Inr train_data"
      and vl: "load_dataset w (dataset_name a) ''validation'' = Inr val_data"
  shows "if rank a = 0
         then snd (leakage_filter train_data val_data) = Inr (data val_dataset)
         else data val_dataset = val_data"
proof (cases "rank a = 0")
  case True
  obtain said r where lf: "leakage_filter train_data val_data = (said, r)"
    by (cases "leakage_filter train_data val_data")
  with b tr vl True show ?thesis
    by (auto simp: build_datasets_def Let_def split: sum.splits option.splits if_splits prod.splits)
next
  case False
  with b tr vl show ?thesis
    by (auto simp: build_datasets_def Let_def split: sum.splits option.splits if_splits prod.splits)
qed

lemma new_DataLoader_Inr:
  "new_DataLoader ds bs pad smp shf workers = Inr dl \<Longrightarrow>
     dl_dataset dl = ds \<and> collate_pad_id dl = pad"
  by (auto simp: new_DataLoader_def split: if_splits)

lemma loaders_Inr:
  assumes "loaders a tok train_dataset val_dataset = Inr (train_loader, val_loader, tok')"
  shows "tok' = tok \<and> dl_dataset train_loader = train_dataset \<and>
         dl_dataset val_loader = val_dataset \<and>
         collate_pad_id train_loader = pad_token_id tok \<and>
         collate_pad_id val_loader = pad_token_id tok"
  using assms
  by (auto simp: loaders_def Let_def split: sum.splits prod.splits dest!: new_DataLoader_Inr)

text \<open>What a returning call went through.\<close>

lemma create_dataloaders_Returned:
  assumes "snd (create_dataloaders w a) = Returned (train_loader, val_loader, tok)"
  shows "\<exists>t0. path_exists w (tokenizer_file w) \<and>
           PreTrainedTokenizerFast w (tokenizer_file w) = Inr t0 \<and>
           ensure_special_tokens t0 = Inr tok \<and>
           snd (build_datasets w a tok) = Inr (dl_dataset train_loader, dl_dataset val_loader) \<and>
           collate_pad_id train_loader = pad_token_id tok \<and>
           collate_pad_id val_loader = pad_token_id tok"
proof (cases "path_exists w (tokenizer_file w)")
  case False
  with assms show ?thesis by (simp add: create_dataloaders_def Let_def)
next
  case True
  show ?thesis
  proof (cases "PreTrainedTokenizerFast w (tokenizer_file w)")
    case (Inl e)
    with assms True show ?thesis by (simp add: create_dataloaders_def Let_def)
  next
    case (Inr t0)
    show ?thesis
    proof (cases "ensure_special_tokens t0")
      case (Inl e)
      with assms True Inr show ?thesis by (simp add: create_dataloaders_def Let_def)
    next
      case ens: (Inr tk)
      obtain said r where b: "build_datasets w a tk = (said, r)"
        by (cases "build_datasets w a tk")
      show ?thesis
      proof (cases r)
        case (Inl e)
        with assms True Inr ens b show ?thesis by (simp add: create_dataloaders_def Let_def)
      next
        case r: (Inr p)
        obtain trd vld where p: "p = (trd, vld)" by (cases p)
        from assms True Inr ens b r p
        have l: "loaders a tk trd vld = Inr (train_loader, val_loader, tok)"
          by (simp add: create_dataloaders_def Let_def split: sum.splits)
        from loaders_Inr [OF l] True Inr ens b r p show ?thesis by simp
      qed
    qed
  qed
qed

text \<open>
  Claim C1, amended. When \<open>create_dataloaders\<close> returns, on rank 0 no row of the
  validation dataset has a \<open>'de'\<close> string that is also the \<open>'de'\<close> string of a row
  of the training split as loaded; on any other rank the validation dataset holds the
  validation split as loaded, unfiltered.
\<close>

theorem rank0_validation_has_no_leakage:
  assumes ret: "snd (create_dataloaders w a) = Returned (train_loader, val_loader, tok)"
      and tr: "load_dataset w (dataset_name a) ''train'' = Inr train_data"
      and vl: "load_dataset w (dataset_name a) ''validation'' = Inr val_data"
  shows "(rank a = 0 \<longrightarrow> no_leakage train_data (data (dl_dataset val_loader))) \<and>
         (rank a \<noteq> 0 \<longrightarrow> data (dl_dataset val_loader) = val_data)"
proof -
  from create_dataloaders_Returned [OF ret]
  have b: "snd (build_datasets w a tok) = Inr (dl_dataset train_loader, dl_dataset val_loader)"
    by blast
  from build_datasets_val [OF b tr vl] leakage_filter_no_leakage show ?thesis
    by (auto split: if_splits)
qed

text \<open>The sample tokenizer after the fallbacks.\<close>

lemma ensure_sample_tokenizer:
  "ensure_special_tokens sample_tokenizer
     = Inr (sample_tokenizer\<lparr>pad_token := Some ''<pad>'', bos_token := Some ''<s>'',
                              eos_token := Some ''</s>''\<rparr>)"
  by (simp add: ensure_special_tokens_unfold assign_fallback_ids_def Let_def
        set_pad_token_id_def set_bos_token_id_def set_eos_token_id_def
        pad_token_id_def bos_token_id_def eos_token_id_def
        sample_tokenizer_def sample_vocabulary_def)

text \<open>The definitions that evaluating a call on the concrete inputs unfolds.\<close>

lemmas sample_defs =
  sample_world_def sample_args_def create_dataloaders_def
  tokenizer_file_def path_join_def rank0_def clear_cache_def build_datasets_def
  leakage_filter_def de_of_def getkey_def list_index_def Let_def
  loaders_def samplers_def new_DataLoader_def new_DistributedSampler_def len_dataset_def

theorem rank0_validation_has_no_leakage_witness:
  "\<exists>train_loader val_loader tok.
     snd (create_dataloaders
            (sample_world sample_tokenizer
               (Inr [[(''en'', Str ''hello''), (''de'', Str ''Hallo'')]])
               (Inr [[(''en'', Str ''hi''), (''de'', Str ''Hallo'')],
                     [(''en'', Str ''cat''), (''de'', Str ''Katze'')]]))
            (sample_args 0 1))
       = Returned (train_loader, val_loader, tok) \<and>
     data (dl_dataset val_loader) = [[(''en'', Str ''cat''), (''de'', Str ''Katze'')]] \<and>
     no_leakage [[(''en'', Str ''hello''), (''de'', Str ''Hallo'')]] (data (dl_dataset val_loader))"
proof -
  let ?train = "[[(''en'', Str ''hello''), (''de'', Str ''Hallo'')]]"
  let ?val = "[[(''en'', Str ''hi''), (''de'', Str ''Hallo'')],
               [(''en'', Str ''cat''), (''de'', Str ''Katze'')]]"
  let ?w = "sample_world sample_tokenizer (Inr ?train) (Inr ?val)"
  obtain tl vl tok
    where ret: "snd (create_dataloaders ?w (sample_args 0 1)) = Returned (tl, vl, tok)"
      and d: "data (dl_dataset vl) = [[(''en'', Str ''cat''), (''de'', Str ''Katze'')]]"
    by (simp add: sample_defs ensure_sample_tokenizer)
  have tr: "load_dataset ?w (dataset_name (sample_args 0 1)) ''train'' = Inr ?train"
    by (simp add: sample_world_def)
  have vl: "load_dataset ?w (dataset_name (sample_args 0 1)) ''validation'' = Inr ?val"
    by (simp add: sample_world_def)
  have r: "rank (sample_args 0 1) = 0" by (simp add: sample_args_def)
  from rank0_validation_has_no_leakage [OF ret tr vl] r
  have "no_leakage ?train (data (dl_dataset vl))" by simp
  with ret d show ?thesis by blast
qed

text \<open>
  Claim C1 as stated fails: the process of rank 1 of 2 returns a validation dataset
  that keeps a row whose \<open>'de'\<close> string is a training \<open>'de'\<close> string.
\<close>

theorem other_rank_keeps_leaked_row:
  "(case snd (create_dataloaders
               (sample_world sample_tokenizer
                  (Inr [[(''en'', Str ''hello''), (''de'', Str ''Hallo'')]])
                  (Inr [[(''en'', Str ''hi''), (''de'', Str ''Hallo'')]]))
               (sample_args 1 2)) of
      Returned (train_loader, val_loader, tok) \<Rightarrow>
        data (dl_dataset train_loader) = [[(''en'', Str ''hello''), (''de'', Str ''Hallo'')]] \<and>
        data (dl_dataset val_loader) = [[(''en'', Str ''hi''), (''de'', Str ''Hallo'')]] \<and>
        \<not> no_leakage (data (dl_dataset train_loader)) (data (dl_dataset val_loader))
    | Raised e \<Rightarrow> False
    | Exited n \<Rightarrow> False)"
  by (simp add: sample_defs ensure_sample_tokenizer no_leakage_def)


section \<open>The tokenizer file and the special-token ids\<close>

text \<open>
  Claim C5, amended. When the file \<open>en-de-tokenizer.json\<close> beside the parent of the
  module's directory does not exist, the call ends at once with \<open>FileNotFoundError\<close>,
  on every rank and for all arguments: after the cache messages of rank 0 nothing more
  is printed, no tokenizer is returned, and neither the tokenizer constructor nor the
  dataset hub is consulted, so the outcome is the same whatever they would answer.
  This is the only file the code looks for: line 104 overwrites the \<open>tokenizer_path\<close>
  argument.
\<close>

theorem missing_tokenizer_raises:
  assumes "\<not> path_exists w (tokenizer_file w)"
  shows "create_dataloaders w a
           = (rank0 (rank a) (clear_cache w), Raised (FileNotFoundError (tokenizer_file w))) \<and>
         create_dataloaders (w\<lparr>PreTrainedTokenizerFast := loader, load_dataset := hub\<rparr>) a
           = create_dataloaders w a"
proof -
  let ?w' = "w\<lparr>PreTrainedTokenizerFast := loader, load_dataset := hub\<rparr>"
  have f: "tokenizer_file ?w' = tokenizer_file w" by (simp add: tokenizer_file_def)
  have c: "clear_cache ?w' = clear_cache w"
    by (simp add: clear_cache_def Let_def split: option.splits)
  from assms have 1: "create_dataloaders w a
           = (rank0 (rank a) (clear_cache w), Raised (FileNotFoundError (tokenizer_file w)))"
    by (simp add: create_dataloaders_def Let_def)
  from assms f c have "create_dataloaders ?w' a
           = (rank0 (rank a) (clear_cache w), Raised (FileNotFoundError (tokenizer_file w)))"
    by (simp add: create_dataloaders_def Let_def)
  with 1 show ?thesis by simp
qed

theorem missing_tokenizer_raises_witness:
  "\<not> path_exists ((sample_world sample_tokenizer (Inr []) (Inr []))\<lparr>path_exists := (\<lambda>p. False)\<rparr>)
       (tokenizer_file ((sample_world sample_tokenizer (Inr []) (Inr []))\<lparr>path_exists := (\<lambda>p. False)\<rparr>)) \<and>
   create_dataloaders ((sample_world sample_tokenizer (Inr []) (Inr []))\<lparr>path_exists := (\<lambda>p. False)\<rparr>)
       (sample_args 0 1)
     = ([Checking_cache, Cache_not_found],
        Raised (FileNotFoundError ''/repo/src/../en-de-tokenizer.json''))"
proof -
  let ?w = "(sample_world sample_tokenizer (Inr []) (Inr []))\<lparr>path_exists := (\<lambda>p. False)\<rparr>"
  have h: "\<not> path_exists ?w (tokenizer_file ?w)" by simp
  from missing_tokenizer_raises [OF h, of "sample_args 0 1"] h show ?thesis
    by (simp add: sample_world_def sample_args_def rank0_def clear_cache_def
                  tokenizer_file_def path_join_def)
qed

text \<open>
  Claim C5 as stated fails: the file named by the \<open>tokenizer_path\<close> argument does not
  exist, yet the call returns a tokenizer, the one loaded from the fixed path.
\<close>

theorem caller_tokenizer_path_is_ignored:
  "tokenizer_path (sample_args 0 1) = ''tokenizer.json'' \<and>
   \<not> path_exists
       (sample_world sample_tokenizer
          (Inr [[(''en'', Str ''hello''), (''de'', Str ''Hallo'')]])
          (Inr [[(''en'', Str ''cat''), (''de'', Str ''Katze'')]]))
       (tokenizer_path (sample_args 0 1)) \<and>
   (case snd (create_dataloaders
               (sample_world sample_tokenizer
                  (Inr [[(''en'', Str ''hello''), (''de'', Str ''Hallo'')]])
                  (Inr [[(''en'', Str ''cat''), (''de'', Str ''Katze'')]]))
               (sample_args 0 1)) of
      Returned (train_loader, val_loader, tok) \<Rightarrow>
        tok = sample_tokenizer\<lparr>pad_token := Some ''<pad>'', bos_token := Some ''<s>'',
                                eos_token := Some ''</s>''\<rparr>
    | Raised e \<Rightarrow> False
    | Exited n \<Rightarrow> False)"
  by (simp add: sample_defs ensure_sample_tokenizer)

text \<open>
  Claim C8, amended. For a loaded tokenizer whose two vocabulary lookups agree, a call
  that returns has resolved each special-token id to the loaded tokenizer's own id
  where it has one and to the constant (PAD 3, BOS 1, EOS 2) where it has none, and
  both loaders pad with the pad id. When the loaded tokenizer has none of the three,
  the ids are 3, 1 and 2, mutually distinct. When a special token has no id and the
  vocabulary has no token at its fallback id, the id stays \<open>None\<close> and the call
  raises \<open>TypeError\<close> at lines 122--127, before the \<open>try\<close>.
\<close>

theorem special_token_ids_resolved:
  "(PreTrainedTokenizerFast w (tokenizer_file w) = Inr t0 \<and> vocabulary_consistent t0 \<and>
    snd (create_dataloaders w a) = Returned (train_loader, val_loader, tok) \<longrightarrow>
      pad_token_id tok = resolved (pad_token_id t0) 3 \<and>
      bos_token_id tok = resolved (bos_token_id t0) 1 \<and>
      eos_token_id tok = resolved (eos_token_id t0) 2 \<and>
      collate_pad_id train_loader = pad_token_id tok \<and>
      collate_pad_id val_loader = pad_token_id tok \<and>
      (pad_token_id t0 = None \<and> bos_token_id t0 = None \<and> eos_token_id t0 = None \<longrightarrow>
         pad_token_id tok = Some 3 \<and> bos_token_id tok = Some 1 \<and> eos_token_id tok = Some 2 \<and>
         pad_token_id tok \<noteq> bos_token_id tok \<and> pad_token_id tok \<noteq> eos_token_id tok \<and>
         bos_token_id tok \<noteq> eos_token_id tok)) \<and>
   (path_exists w (tokenizer_file w) \<and>
    PreTrainedTokenizerFast w (tokenizer_file w) = Inr t0 \<and> lacks_fallback t0 \<longrightarrow>
      (\<exists>message. snd (create_dataloaders w a) = Raised (TypeError message)))"
proof (intro conjI impI)
  assume h: "PreTrainedTokenizerFast w (tokenizer_file w) = Inr t0 \<and> vocabulary_consistent t0 \<and>
    snd (create_dataloaders w a) = Returned (train_loader, val_loader, tok)"
  with create_dataloaders_Returned [of w a train_loader val_loader tok]
  have ens: "ensure_special_tokens t0 = Inr tok"
    and pads: "collate_pad_id train_loader = pad_token_id tok"
              "collate_pad_id val_loader = pad_token_id tok" by auto
  from ensure_special_tokens_Inr [OF ens]
  have tok: "tok = assign_fallback_ids t0" and ok: "\<not> lacks_fallback t0" by simp_all
  from h have vc: "vocabulary_consistent t0" by simp
  note ids = resolved_ids [OF vc ok, folded tok]
  show "pad_token_id tok = resolved (pad_token_id t0) 3"
    and "bos_token_id tok = resolved (bos_token_id t0) 1"
    and "eos_token_id tok = resolved (eos_token_id t0) 2" by (rule ids)+
  show "collate_pad_id train_loader = pad_token_id tok"
    and "collate_pad_id val_loader = pad_token_id tok" by (rule pads)+
  assume "pad_token_id t0 = None \<and> bos_token_id t0 = None \<and> eos_token_id t0 = None"
  with ids show "pad_token_id tok = Some 3" and "bos_token_id tok = Some 1"
    and "eos_token_id tok = Some 2" and "pad_token_id tok \<noteq> bos_token_id tok"
    and "pad_token_id tok \<noteq> eos_token_id tok" and "bos_token_id tok \<noteq> eos_token_id tok"
    by (simp_all add: resolved_def)
next
  assume "path_exists w (tokenizer_file w) \<and>
    PreTrainedTokenizerFast w (tokenizer_file w) = Inr t0 \<and> lacks_fallback t0"
  then show "\<exists>message. snd (create_dataloaders w a) = Raised (TypeError message)"
    by (simp add: create_dataloaders_def Let_def ensure_special_tokens_lacks)
qed


lemma sample_vocabulary_consistent: "vocabulary_consistent sample_tokenizer"
  unfolding vocabulary_consistent_def
proof (intro allI impI)
  fix i t assume "convert_ids_to_tokens sample_tokenizer i = Some t"
  then show "convert_tokens_to_ids sample_tokenizer t = Some i"
    by (auto simp: sample_tokenizer_def sample_vocabulary_def split: if_splits)
qed

theorem special_token_ids_resolved_witness:
  "(\<exists>train_loader val_loader tok.
      snd (create_dataloaders
             (sample_world sample_tokenizer
                (Inr [[(''en'', Str ''hello''), (''de'', Str ''Hallo'')]])
                (Inr [[(''en'', Str ''cat''), (''de'', Str ''Katze'')]]))
             (sample_args 0 1))
        = Returned (train_loader, val_loader, tok) \<and>
      pad_token_id tok = Some 3 \<and> bos_token_id tok = Some 1 \<and> eos_token_id tok = Some 2 \<and>
      collate_pad_id train_loader = Some 3 \<and> collate_pad_id val_loader = Some 3) \<and>
   lacks_fallback small_tokenizer \<and>
   (\<exists>message.
      snd (create_dataloaders
             (sample_world small_tokenizer
                (Inr [[(''en'', Str ''hello''), (''de'', Str ''Hallo'')]])
                (Inr [[(''en'', Str ''cat''), (''de'', Str ''Katze'')]]))
             (sample_args 0 1))
        = Raised (TypeError message))"
proof -
  let ?train = "Inr [[(''en'', Str ''hello''), (''de'', Str ''Hallo'')]] :: error + item list"
  let ?val = "Inr [[(''en'', Str ''cat''), (''de'', Str ''Katze'')]] :: error + item list"
  let ?w = "sample_world sample_tokenizer ?train ?val"
  let ?small = "small_tokenizer"
  let ?w' = "sample_world ?small ?train ?val"
  have n: "pad_token_id sample_tokenizer = None \<and> bos_token_id sample_tokenizer = None \<and>
           eos_token_id sample_tokenizer = None"
    by (simp add: sample_tokenizer_def pad_token_id_def bos_token_id_def eos_token_id_def)
  have ld: "PreTrainedTokenizerFast ?w (tokenizer_file ?w) = Inr sample_tokenizer"
    by (simp add: sample_world_def)
  obtain tl vl tok
    where ret: "snd (create_dataloaders ?w (sample_args 0 1)) = Returned (tl, vl, tok)"
    by (simp add: sample_defs ensure_sample_tokenizer)
  from special_token_ids_resolved [of ?w sample_tokenizer "sample_args 0 1" tl vl tok]
    ld sample_vocabulary_consistent ret n
  have ids: "pad_token_id tok = Some 3 \<and> bos_token_id tok = Some 1 \<and> eos_token_id tok = Some 2 \<and>
      collate_pad_id tl = Some 3 \<and> collate_pad_id vl = Some 3" by (simp add: resolved_def)
  have ex': "path_exists ?w' (tokenizer_file ?w')"
    by (simp add: sample_world_def tokenizer_file_def path_join_def)
  have ld': "PreTrainedTokenizerFast ?w' (tokenizer_file ?w') = Inr ?small"
    by (simp add: sample_world_def)
  have lk: "lacks_fallback ?small"
    by (simp add: lacks_fallback_def small_tokenizer_def pad_token_id_def)
  from special_token_ids_resolved [of ?w' ?small "sample_args 0 1"] ex' ld' lk
  have "\<exists>message. snd (create_dataloaders ?w' (sample_args 0 1)) = Raised (TypeError message)"
    by blast
  with ret ids lk show ?thesis by blast
qed

text \<open>
  Claim C8 as stated fails: for a loaded tokenizer whose pad token is the token of id 1
  and which has no BOS token, the call returns a tokenizer whose pad id and BOS id are
  both 1.
\<close>

theorem defined_pad_collides_with_bos_fallback:
  "pad_token_id (sample_tokenizer\<lparr>pad_token := Some ''<s>''\<rparr>) = Some 1 \<and>
   bos_token_id (sample_tokenizer\<lparr>pad_token := Some ''<s>''\<rparr>) = None \<and>
   (case snd (create_dataloaders
               (sample_world (sample_tokenizer\<lparr>pad_token := Some ''<s>''\<rparr>)
                  (Inr [[(''en'', Str ''hello''), (''de'', Str ''Hallo'')]])
                  (Inr [[(''en'', Str ''cat''), (''de'', Str ''Katze'')]]))
               (sample_args 0 1)) of
      Returned (train_loader, val_loader, tok) \<Rightarrow>
        pad_token_id tok = Some 1 \<and> bos_token_id tok = Some 1 \<and>
        pad_token_id tok = bos_token_id tok
    | Raised e \<Rightarrow> False
    | Exited n \<Rightarrow> False)"
proof -
  have e: "ensure_special_tokens (sample_tokenizer\<lparr>pad_token := Some ''<s>''\<rparr>)
     = Inr (sample_tokenizer\<lparr>pad_token := Some ''<s>'', bos_token := Some ''<s>'',
                              eos_token := Some ''</s>''\<rparr>)"
    by (simp add: ensure_special_tokens_unfold assign_fallback_ids_def Let_def
        set_pad_token_id_def set_bos_token_id_def set_eos_token_id_def
        pad_token_id_def bos_token_id_def eos_token_id_def
        sample_tokenizer_def sample_vocabulary_def)
  show ?thesis
    by (simp add: sample_defs e)
       (simp add: sample_tokenizer_def sample_vocabulary_def pad_token_id_def bos_token_id_def)
qed

section \<open>Failures inside the try body\<close>

text \<open>The places where the \<open>try\<close> body can raise, each ending the body with that exception.\<close>

lemma build_datasets_train_fetch_fails:
  assumes "load_dataset w (dataset_name a) ''train'' = Inl e"
  shows "snd (build_datasets w a tok) = Inl e"
  using assms by (simp add: build_datasets_def Let_def)

lemma build_datasets_val_fetch_fails:
  assumes "load_dataset w (dataset_name a) ''train'' = Inr train_data"
      and "load_dataset w (dataset_name a) ''validation'' = Inl e"
  shows "snd (build_datasets w a tok) = Inl e"
  using assms by (simp add: build_datasets_def Let_def)

lemma build_datasets_leakage_check_fails:
  assumes "load_dataset w (dataset_name a) ''train'' = Inr train_data"
      and "load_dataset w (dataset_name a) ''validation'' = Inr val_data"
      and "rank a = 0"
      and "snd (leakage_filter train_data val_data) = Inl e"
  shows "snd (build_datasets w a tok) = Inl e"
proof -
  obtain said r where lf: "leakage_filter train_data val_data = (said, r)"
    by (cases "leakage_filter train_data val_data")
  with assms show ?thesis by (simp add: build_datasets_def Let_def)
qed

lemma build_datasets_shuffle_fails:
  assumes "load_dataset w (dataset_name a) ''train'' = Inr train_data"
      and "load_dataset w (dataset_name a) ''validation'' = Inr val_data"
      and "rank a \<noteq> 0"
      and "subset_size a = Some k" and "k < int (length train_data)"
      and "shuffle w (seed a + 1) train_data = Inl e"
  shows "snd (build_datasets w a tok) = Inl e"
  using assms by (simp add: build_datasets_def Let_def)


text \<open>
  Claim C9, amended. Once the tokenizer is loaded and its special tokens are set, an
  exception \<open>e\<close> raised in the \<open>try\<close> body (fetching the splits, the leakage
  check, subsetting, building the datasets) never leaves the call: the process exits
  with status 1. On rank 0 the last line printed is the fatal message for \<open>e\<close>; on
  any other rank nothing is printed at all.
\<close>

theorem try_block_failure_exits:
  assumes ex: "path_exists w (tokenizer_file w)"
      and ld: "PreTrainedTokenizerFast w (tokenizer_file w) = Inr t0"
      and ens: "ensure_special_tokens t0 = Inr tok"
      and fail: "snd (build_datasets w a tok) = Inl e"
  shows "create_dataloaders w a =
           (if rank a = 0
            then clear_cache w @ [Loading_tokenizer (tokenizer_file w)] @
                 fst (build_datasets w a tok) @ [Fatal e]
            else fst (build_datasets w a tok),
            Exited 1) \<and>
         (rank a \<noteq> 0 \<longrightarrow> fst (build_datasets w a tok) = [])"
proof -
  obtain said r where b: "build_datasets w a tok = (said, r)"
    by (cases "build_datasets w a tok")
  with fail have r: "r = Inl e" by simp
  have quiet: "rank a \<noteq> 0 \<longrightarrow> fst (build_datasets w a tok) = []"
    by (auto simp: build_datasets_def rank0_def Let_def split: sum.splits option.splits prod.splits)
  from ex ld ens b r have "create_dataloaders w a =
           (if rank a = 0
            then clear_cache w @ [Loading_tokenizer (tokenizer_file w)] @ said @ [Fatal e]
            else said, Exited 1)"
    by (simp add: create_dataloaders_def Let_def rank0_def)
  with b quiet show ?thesis by simp
qed

theorem try_block_failure_exits_witness:
  "create_dataloaders
     (sample_world sample_tokenizer (Inr [[(''en'', Str ''hello'')]]) (Inr [])) (sample_args 0 1)
     = ([Checking_cache, Cache_not_found,
         Loading_tokenizer ''/repo/src/../en-de-tokenizer.json'',
         Loading_dataset ''bentrevett/multi30k'', Leakage_check_start,
         Fatal (KeyError ''de'')],
        Exited 1) \<and>
   (\<exists>tok. ensure_special_tokens sample_tokenizer = Inr tok \<and>
      snd (build_datasets
             (sample_world sample_tokenizer (Inr [[(''en'', Str ''hello'')]]) (Inr []))
             (sample_args 0 1) tok)
        = Inl (KeyError ''de''))"
proof -
  let ?w = "sample_world sample_tokenizer (Inr [[(''en'', Str ''hello'')]]) (Inr [])"
  let ?tok = "sample_tokenizer\<lparr>pad_token := Some ''<pad>'', bos_token := Some ''<s>'',
                              eos_token := Some ''</s>''\<rparr>"
  have ex: "path_exists ?w (tokenizer_file ?w)"
    by (simp add: sample_world_def tokenizer_file_def path_join_def)
  have ld: "PreTrainedTokenizerFast ?w (tokenizer_file ?w) = Inr sample_tokenizer"
    by (simp add: sample_world_def)
  have b: "build_datasets ?w (sample_args 0 1) ?tok
             = ([Loading_dataset ''bentrevett/multi30k'', Leakage_check_start],
                Inl (KeyError ''de''))"
    by (simp add: sample_defs)
  then have fail: "snd (build_datasets ?w (sample_args 0 1) ?tok) = Inl (KeyError ''de'')" by simp
  have cc: "clear_cache ?w = [Checking_cache, Cache_not_found]"
    by (simp add: sample_world_def clear_cache_def path_join_def)
  have tf: "tokenizer_file ?w = ''/repo/src/../en-de-tokenizer.json''"
    by (simp add: sample_world_def tokenizer_file_def path_join_def)
  have r: "rank (sample_args 0 1) = 0" by (simp add: sample_args_def)
  from try_block_failure_exits [OF ex ld ensure_sample_tokenizer fail] b cc tf r
  have "create_dataloaders ?w (sample_args 0 1)
     = ([Checking_cache, Cache_not_found,
         Loading_tokenizer ''/repo/src/../en-de-tokenizer.json'',
         Loading_dataset ''bentrevett/multi30k'', Leakage_check_start,
         Fatal (KeyError ''de'')],
        Exited 1)" by simp
  with ensure_sample_tokenizer fail show ?thesis by blast
qed

text \<open>
  Claim C9 as stated fails: in the process of rank 1 of 2 a failing fetch ends the
  process with status 1 and no error message is printed.
\<close>

theorem other_rank_exits_without_logging:
  "create_dataloaders
     (sample_world sample_tokenizer (Inl (LibraryError ''offline'')) (Inr [])) (sample_args 1 2)
     = ([], Exited 1)"
  by (simp add: sample_defs ensure_sample_tokenizer)

section \<open>The encoder stack keeps the shape\<close>

lemma EncoderLayer_forward_shape:
  assumes k: "keeps_shape shape add s l" and x: "shape x = s"
  shows "shape (EncoderLayer_forward add l x msk) = s"
proof -
  from k have att: "\<And>y m. shape y = s \<Longrightarrow> shape (self_attention l y y y m) = s"
    and ff: "\<And>y. shape y = s \<Longrightarrow> shape (feed_forward l y) = s"
    and n1: "\<And>y. shape y = s \<Longrightarrow> shape (norm1 l y) = s"
    and n2: "\<And>y. shape y = s \<Longrightarrow> shape (norm2 l y) = s"
    and dr: "\<And>k y. shape y = s \<Longrightarrow> shape (dropout l k y) = s"
    and ad: "\<And>y z. shape y = s \<Longrightarrow> shape z = s \<Longrightarrow> shape (add y z) = s"
    by (simp_all add: keeps_shape_def)
  let ?a = "self_attention l x x x msk"
  let ?x1 = "norm1 l (add x (dropout l 0 ?a))"
  let ?f = "feed_forward l ?x1"
  have a: "shape ?a = s" using x by (rule att)
  have x1: "shape ?x1 = s" by (intro n1 ad dr a x)
  have f: "shape ?f = s" using x1 by (rule ff)
  have "shape (norm2 l (add ?x1 (dropout l 1 ?f))) = s" by (intro n2 ad dr f x1)
  then show ?thesis by (simp add: EncoderLayer_forward_def Let_def)
qed

lemma foldl_layers_shape:
  assumes "\<forall>l \<in> set layers. keeps_shape shape add s l" and "shape x = s"
  shows "shape (foldl (\<lambda>x layer. EncoderLayer_forward add layer x msk) x layers) = s"
  using assms
proof (induction layers arbitrary: x)
  case Nil
  then show ?case by simp
next
  case (Cons l layers)
  then have "shape (EncoderLayer_forward add l x msk) = s"
    by (simp add: EncoderLayer_forward_shape)
  with Cons show ?case by simp
qed

text \<open>
  Claim C6. When the submodules of every layer answer a tensor of shape \<open>[B, T, D]\<close>
  for one of that shape, \<open>Encoder.forward\<close> maps an input of shape \<open>[B, T, D]\<close> to
  an output of the same shape, for every number of layers; with no layer the output is
  the input itself.
\<close>

theorem Encoder_forward_keeps_shape:
  assumes layers: "\<forall>i < nat n_layers. keeps_shape shape add [B, T, D] (new_layer i)"
      and x: "shape x = [B, T, D]"
  shows "shape (Encoder_forward add (Encoder_init n_layers new_layer) x msk) = [B, T, D] \<and>
         Encoder_forward add (Encoder_init 0 new_layer) x msk = x"
proof -
  from layers have "\<forall>l \<in> set (Encoder_init n_layers new_layer). keeps_shape shape add [B, T, D] l"
    by (auto simp: Encoder_init_def)
  from foldl_layers_shape [OF this x]
  have "shape (Encoder_forward add (Encoder_init n_layers new_layer) x msk) = [B, T, D]"
    by (simp add: Encoder_forward_def)
  moreover have "Encoder_forward add (Encoder_init 0 new_layer) x msk = x"
    by (simp add: Encoder_forward_def Encoder_init_def)
  ultimately show ?thesis by simp
qed

theorem Encoder_forward_keeps_shape_witness:
  "Encoder_forward (\<lambda>a b. (fst a, snd a + snd b))
          (Encoder_init 2
             (\<lambda>i. \<lparr>self_attention = (\<lambda>q k v m. (fst q, snd q + snd k + snd v)),
                   feed_forward = (\<lambda>y. (fst y, 2 * snd y)),
                   norm1 = (\<lambda>y. (fst y, snd y - 1)),
                   norm2 = (\<lambda>y. (fst y, snd y - int i)),
                   dropout = (\<lambda>k y. (fst y, if k = 0 then snd y else 0))\<rparr>))
          ([2, 3, 4 :: nat], 1 :: int) (None :: unit option) = ([2, 3, 4], 10) \<and>
   Encoder_forward (\<lambda>a b. (fst a, snd a + snd b))
          (Encoder_init 0
             (\<lambda>i. \<lparr>self_attention = (\<lambda>q k v m. (fst q, snd q + snd k + snd v)),
                   feed_forward = (\<lambda>y. (fst y, 2 * snd y)),
                   norm1 = (\<lambda>y. (fst y, snd y - 1)),
                   norm2 = (\<lambda>y. (fst y, snd y - int i)),
                   dropout = (\<lambda>k y. (fst y, if k = 0 then snd y else 0))\<rparr>))
          ([2, 3, 4 :: nat], 1 :: int) (None :: unit option) = ([2, 3, 4], 1)"
proof -
  let ?add = "\<lambda>(a :: nat list \<times> int) (b :: nat list \<times> int). (fst a, snd a + snd b)"
  let ?new = "\<lambda>i :: nat. \<lparr>self_attention = (\<lambda>(q :: nat list \<times> int) (k :: nat list \<times> int) (v :: nat list \<times> int) (m :: unit option). (fst q, snd q + snd k + snd v)),
                   feed_forward = (\<lambda>y. (fst y, 2 * snd y)),
                   norm1 = (\<lambda>y. (fst y, snd y - 1)),
                   norm2 = (\<lambda>y. (fst y, snd y - int i)),
                   dropout = (\<lambda>k y. (fst y, if k = 0 then snd y else 0))\<rparr>"
  let ?x = "([2, 3, 4 :: nat], 1 :: int)"
  have k: "\<forall>i < nat 2. keeps_shape fst ?add [2, 3, 4] (?new i)"
    by (simp add: keeps_shape_def)
  have x: "fst ?x = [2, 3, 4]" by simp
  have two: "[0..<2] = [0, 1 :: nat]" by (simp add: upt_rec)
  have v: "snd (Encoder_forward ?add (Encoder_init 2 ?new) ?x None) = 10"
    by (simp add: Encoder_forward_def Encoder_init_def EncoderLayer_forward_def two Let_def)
  from Encoder_forward_keeps_shape [of 2 fst ?add 2 3 4 ?new ?x None, OF k x] v
  show ?thesis by (simp add: prod_eq_iff)
qed

end
